theory Spec2Isabelle
  imports Complex_Main "HOL-Library.Word"
begin

unbundle bit_operations_syntax

section \<open>Strings, bytes and the SHA-256 digest\<close>

text \<open>
  A Python \<open>str\<close> is modelled as a \<open>string\<close> whose characters are code points below 256;
  \<open>len\<close> is \<open>length\<close>. \<open>str.encode('utf-8')\<close> keeps a code point below 128 as one byte
  and writes any other code point of this range as two bytes.
\<close>

type_synonym u8 = "8 word"
type_synonym u32 = "32 word"

definition encode_utf8_char :: "char \<Rightarrow> u8 list" where
  "encode_utf8_char c =
     (let n = (of_char c :: nat) in
      if n < 128 then [of_nat n]
      else [of_nat (192 + n div 64), of_nat (128 + n mod 64)])"

definition encode_utf8 :: "string \<Rightarrow> u8 list" where
  "encode_utf8 s = concat (map encode_utf8_char s)"

text \<open>
  \<open>hashlib.sha256\<close> is the function of FIPS 180-4: 32-bit words, big-endian, eight
  words of chaining state, 64 rounds for each block of 64 bytes. The round constants (the
  first 32 bits of the fractional parts of the cube roots of the first 64 primes) and the
  initial state (the same of the square roots of the first 8 primes) are written in decimal.
\<close>

definition rotr :: "nat \<Rightarrow> u32 \<Rightarrow> u32" where
  "rotr n x = drop_bit n x OR push_bit (32 - n) x"

definition Ch :: "u32 \<Rightarrow> u32 \<Rightarrow> u32 \<Rightarrow> u32" where
  "Ch x y z = (x AND y) XOR (NOT x AND z)"

definition Maj :: "u32 \<Rightarrow> u32 \<Rightarrow> u32 \<Rightarrow> u32" where
  "Maj x y z = (x AND y) XOR (x AND z) XOR (y AND z)"

definition Sigma0 :: "u32 \<Rightarrow> u32" where
  "Sigma0 x = rotr 2 x XOR rotr 13 x XOR rotr 22 x"

definition Sigma1 :: "u32 \<Rightarrow> u32" where
  "Sigma1 x = rotr 6 x XOR rotr 11 x XOR rotr 25 x"

definition sigma0 :: "u32 \<Rightarrow> u32" where
  "sigma0 x = rotr 7 x XOR rotr 18 x XOR drop_bit 3 x"

definition sigma1 :: "u32 \<Rightarrow> u32" where
  "sigma1 x = rotr 17 x XOR rotr 19 x XOR drop_bit 10 x"

definition K256 :: "u32 list" where
  "K256 =
    [1116352408, 1899447441, 3049323471, 3921009573, 961987163, 1508970993, 2453635748, 2870763221,
     3624381080, 310598401, 607225278, 1426881987, 1925078388, 2162078206, 2614888103, 3248222580,
     3835390401, 4022224774, 264347078, 604807628, 770255983, 1249150122, 1555081692, 1996064986,
     2554220882, 2821834349, 2952996808, 3210313671, 3336571891, 3584528711, 113926993, 338241895,
     666307205, 773529912, 1294757372, 1396182291, 1695183700, 1986661051, 2177026350, 2456956037,
     2730485921, 2820302411, 3259730800, 3345764771, 3516065817, 3600352804, 4094571909, 275423344,
     430227734, 506948616, 659060556, 883997877, 958139571, 1322822218, 1537002063, 1747873779,
     1955562222, 2024104815, 2227730452, 2361852424, 2428436474, 2756734187, 3204031479, 3329325298]"

type_synonym sha_state = "u32 \<times> u32 \<times> u32 \<times> u32 \<times> u32 \<times> u32 \<times> u32 \<times> u32"

definition H256 :: sha_state where
  "H256 = (1779033703, 3144134277, 1013904242, 2773480762,
           1359893119, 2600822924, 528734635, 1541459225)"

text \<open>Padding: the byte 0x80, zero bytes up to 56 modulo 64, the bit length on 8 bytes.\<close>

definition length_bytes :: "64 word \<Rightarrow> u8 list" where
  "length_bytes n = map (\<lambda>i. ucast (drop_bit (8 * i) n)) [7, 6, 5, 4, 3, 2, 1, 0]"

definition sha_pad :: "u8 list \<Rightarrow> u8 list" where
  "sha_pad m =
     m @ [0x80] @ replicate ((119 - length m mod 64) mod 64) 0
       @ length_bytes (of_nat (8 * length m))"

definition be_word :: "u8 list \<Rightarrow> u32" where
  "be_word bs = foldl (\<lambda>w b. push_bit 8 w OR ucast b) 0 bs"

fun chunks :: "nat \<Rightarrow> 'a list \<Rightarrow> 'a list list" where
  "chunks n xs = (if n = 0 \<or> xs = [] then [] else take n xs # chunks n (drop n xs))"

declare chunks.simps [simp del]

fun schedule :: "nat \<Rightarrow> u32 list \<Rightarrow> u32 list" where
  "schedule 0 w = w"
| "schedule (Suc n) w =
     (let t = length w in
      schedule n (w @ [sigma1 (w ! (t - 2)) + w ! (t - 7) + sigma0 (w ! (t - 15)) + w ! (t - 16)]))"

definition sha_round :: "sha_state \<Rightarrow> u32 \<times> u32 \<Rightarrow> sha_state" where
  "sha_round s kw =
     (case s of (a, b, c, d, e, f, g, h) \<Rightarrow>
        (let T1 = h + Sigma1 e + Ch e f g + fst kw + snd kw;
             T2 = Sigma0 a + Maj a b c
         in (T1 + T2, a, b, c, d + T1, e, f, g)))"

definition sha_add :: "sha_state \<Rightarrow> sha_state \<Rightarrow> sha_state" where
  "sha_add s t =
     (case s of (a, b, c, d, e, f, g, h) \<Rightarrow>
      case t of (a', b', c', d', e', f', g', h') \<Rightarrow>
        (a + a', b + b', c + c', d + d', e + e', f + f', g + g', h + h'))"

definition sha_compress :: "sha_state \<Rightarrow> u8 list \<Rightarrow> sha_state" where
  "sha_compress s block =
     sha_add s (foldl sha_round s (zip K256 (schedule 48 (map be_word (chunks 4 block)))))"

definition word_bytes :: "u32 \<Rightarrow> u8 list" where
  "word_bytes w = [ucast (drop_bit 24 w), ucast (drop_bit 16 w), ucast (drop_bit 8 w), ucast w]"

definition sha256 :: "u8 list \<Rightarrow> u8 list" where
  "sha256 m =
     (case foldl sha_compress H256 (chunks 64 (sha_pad m)) of
        (a, b, c, d, e, f, g, h) \<Rightarrow> concat (map word_bytes [a, b, c, d, e, f, g, h]))"

definition hexdigit :: "nat \<Rightarrow> char" where
  "hexdigit n = ''0123456789abcdef'' ! (n mod 16)"

definition hex_byte :: "u8 \<Rightarrow> string" where
  "hex_byte b = [hexdigit (unat b div 16), hexdigit (unat b)]"

definition hexdigest :: "u8 list \<Rightarrow> string" where
  "hexdigest bs = concat (map hex_byte bs)"


section \<open>Python values, exceptions and the record of outside calls\<close>

text \<open>
  A raised exception is a value: its class and the text \<open>str(e)\<close> gives. A computation that
  may raise returns \<open>exn + 'a\<close>, \<open>Inl\<close> for the exception.
\<close>

datatype exn = Exn (exn_class: string) (exn_str: string)

datatype pyval = PyBool bool | PyInt int | PyStr string

type_synonym pydict = "(string \<times> pyval) list"

definition quoted :: "string \<Rightarrow> string" where
  "quoted k = [CHR 0x27] @ k @ [CHR 0x27]"

definition getitem :: "pydict \<Rightarrow> string \<Rightarrow> exn + pyval" where
  "getitem d k = (case map_of d k of None \<Rightarrow> Inl (Exn ''KeyError'' (quoted k)) | Some v \<Rightarrow> Inr v)"

definition truthy :: "pyval \<Rightarrow> bool" where
  "truthy v = (case v of PyBool b \<Rightarrow> b | PyInt i \<Rightarrow> i \<noteq> 0 | PyStr s \<Rightarrow> s \<noteq> [])"

definition equals_one :: "pyval \<Rightarrow> bool" where
  "equals_one v = (case v of PyBool b \<Rightarrow> b | PyInt i \<Rightarrow> i = 1 | PyStr s \<Rightarrow> False)"

text \<open>
  Every call that leaves the process is recorded, in order: the queries and commits on the
  student table, the certificate file, and each request to the ledger node.
\<close>

datatype event =
    Db_query string string
  | Db_commit "exn option"
  | Db_rollback
  | Pdf_save string
  | W3_is_connected
  | W3_get_balance
  | W3_get_transaction_count
  | Estimate_gas string string
  | W3_gas_price
  | Build_transaction string string pydict
  | Sign_transaction pydict
  | Send_raw_transaction string
  | Wait_for_transaction_receipt string nat
  | Call_verifyCertificate string
  | Call_getTotalCertificates

fun ledger_event :: "event \<Rightarrow> bool" where
  "ledger_event (Db_query c v) = False"
| "ledger_event (Db_commit r) = False"
| "ledger_event Db_rollback = False"
| "ledger_event (Pdf_save p) = False"
| "ledger_event e = True"

fun transaction_event :: "event \<Rightarrow> bool" where
  "transaction_event (Build_transaction h m p) = True"
| "transaction_event (Sign_transaction t) = True"
| "transaction_event (Send_raw_transaction r) = True"
| "transaction_event e = False"

section \<open>blockchain.py: the BlockchainManager\<close>

text \<open>
  The object holds the account and the key; the node, the contract and the clock are outside
  the program, so what each of them answers (a value or an exception) is a field. A method
  returns its result together with the calls it made.
  \<^item> \<open>send_raw_transaction\<close> answers with the transaction hash as \<open>tx_hash.hex()\<close> writes it.
  \<^item> \<open>fromtimestamp_strftime\<close> is \<open>datetime.fromtimestamp(t).strftime(...)\<close>, which depends on
    the local time zone and raises for a time stamp out of range.
  \<^item> \<open>str_float\<close> is the text Python gives a float inside an f-string.
  \<^item> An exception is any instance of \<open>Exception\<close>. The lines written with \<open>print\<close> are left
    out.
\<close>

record BlockchainManager =
  account_address :: string
  private_key :: string
  w3_is_connected :: "exn + bool"
  w3_eth_get_balance :: "exn + nat"
  w3_eth_get_transaction_count :: "exn + int"
  estimate_gas :: "string \<Rightarrow> string \<Rightarrow> exn + int"
  w3_eth_gas_price :: "exn + int"
  build_transaction :: "string \<Rightarrow> string \<Rightarrow> pydict \<Rightarrow> exn + pydict"
  sign_transaction :: "pydict \<Rightarrow> string \<Rightarrow> exn + string"
  send_raw_transaction :: "string \<Rightarrow> exn + string"
  wait_for_transaction_receipt :: "string \<Rightarrow> nat \<Rightarrow> exn + pydict"
  verifyCertificate_call :: "string \<Rightarrow> exn + bool \<times> string \<times> int"
  getTotalCertificates_call :: "exn + int"
  fromtimestamp_strftime :: "int \<Rightarrow> exn + string"
  str_float :: "rat \<Rightarrow> string"

type_synonym 'a ledger_io = "(exn + 'a) \<times> event list"

definition l_return :: "'a \<Rightarrow> 'a ledger_io" where
  "l_return x = (Inr x, [])"

definition l_call :: "event \<Rightarrow> exn + 'a \<Rightarrow> 'a ledger_io" where
  "l_call ev answer = (answer, [ev])"

definition l_bind :: "'a ledger_io \<Rightarrow> ('a \<Rightarrow> 'b ledger_io) \<Rightarrow> 'b ledger_io" where
  "l_bind m f =
     (case m of
        (Inl e, t) \<Rightarrow> (Inl e, t)
      | (Inr x, t) \<Rightarrow> (case f x of (r, t') \<Rightarrow> (r, t @ t')))"

definition l_try :: "'a ledger_io \<Rightarrow> (exn \<Rightarrow> 'a ledger_io) \<Rightarrow> 'a ledger_io" where
  "l_try m handler =
     (case m of
        (Inl e, t) \<Rightarrow> (case handler e of (r, t') \<Rightarrow> (r, t @ t'))
      | (Inr x, t) \<Rightarrow> (Inr x, t))"

definition is_connected :: "BlockchainManager \<Rightarrow> bool ledger_io" where
  "is_connected self = l_call W3_is_connected (w3_is_connected self)"

text \<open>
  The balance is wei divided by \<open>10 ^ 18\<close>. The source holds it in a float; for a whole
  number of wei the rounding of the float does not change which side of the float \<open>0.001\<close>
  it falls on, so the exact quotient is compared.
\<close>

definition get_balance :: "BlockchainManager \<Rightarrow> rat ledger_io" where
  "get_balance self =
     l_bind (l_call W3_get_balance (w3_eth_get_balance self)) (\<lambda>balance_wei.
     l_return (rat_of_nat balance_wei / 10 ^ 18))"

definition store_certificate_try :: "BlockchainManager \<Rightarrow> string \<Rightarrow> string \<Rightarrow> pydict ledger_io" where
  "store_certificate_try self certificate_hash matric_number =
     l_bind (is_connected self) (\<lambda>connected.
     if \<not> connected then
       l_return [(''success'', PyBool False),
                 (''error'', PyStr ''Not connected to blockchain network'')]
     else
     l_bind (get_balance self) (\<lambda>balance.
     if balance < 1 / 1000 then
       l_return [(''success'', PyBool False),
                 (''error'', PyStr (''Insufficient balance: '' @ str_float self balance
                                      @ '' ETH. Need at least 0.001 ETH''))]
     else
     l_bind (l_call W3_get_transaction_count (w3_eth_get_transaction_count self)) (\<lambda>nonce.
     l_bind (l_call (Estimate_gas certificate_hash matric_number)
               (estimate_gas self certificate_hash matric_number)) (\<lambda>gas_estimate.
     l_bind (l_call W3_gas_price (w3_eth_gas_price self)) (\<lambda>gas_price.
     let params = [(''from'', PyStr (account_address self)),
                   (''nonce'', PyInt nonce),
                   (''gas'', PyInt (gas_estimate + 10000)),
                   (''gasPrice'', PyInt gas_price)] in
     l_bind (l_call (Build_transaction certificate_hash matric_number params)
               (build_transaction self certificate_hash matric_number params)) (\<lambda>transaction.
     l_bind (l_call (Sign_transaction transaction)
               (sign_transaction self transaction (private_key self))) (\<lambda>raw_transaction.
     l_bind (l_call (Send_raw_transaction raw_transaction)
               (send_raw_transaction self raw_transaction)) (\<lambda>tx_hash.
     l_bind (l_call (Wait_for_transaction_receipt tx_hash 120)
               (wait_for_transaction_receipt self tx_hash 120)) (\<lambda>tx_receipt.
     l_bind (getitem tx_receipt ''status'', []) (\<lambda>status.
     if equals_one status then
       l_bind (getitem tx_receipt ''blockNumber'', []) (\<lambda>block_number.
       l_bind (getitem tx_receipt ''gasUsed'', []) (\<lambda>gas_used.
       l_return [(''success'', PyBool True),
                 (''tx_hash'', PyStr tx_hash),
                 (''block_number'', block_number),
                 (''gas_used'', gas_used)]))
     else
       l_return [(''success'', PyBool False),
                 (''error'', PyStr ''Transaction failed on blockchain''),
                 (''tx_hash'', PyStr tx_hash)]))))))))))"

definition store_certificate_on_blockchain ::
    "BlockchainManager \<Rightarrow> string \<Rightarrow> string \<Rightarrow> pydict ledger_io" where
  "store_certificate_on_blockchain self certificate_hash matric_number =
     l_try (store_certificate_try self certificate_hash matric_number)
       (\<lambda>e. l_return [(''success'', PyBool False), (''error'', PyStr (exn_str e))])"

definition verify_certificate_on_blockchain :: "BlockchainManager \<Rightarrow> string \<Rightarrow> pydict ledger_io" where
  "verify_certificate_on_blockchain self certificate_hash =
     l_try
       (l_bind (l_call (Call_verifyCertificate certificate_hash)
                  (verifyCertificate_call self certificate_hash)) (\<lambda>result.
        case result of (found, matric_number, timestamp) \<Rightarrow>
          if found then
            l_bind (fromtimestamp_strftime self timestamp, []) (\<lambda>date_stored.
            l_return [(''exists'', PyBool True),
                      (''matric_number'', PyStr matric_number),
                      (''timestamp'', PyInt timestamp),
                      (''date_stored'', PyStr date_stored)])
          else
            l_return [(''exists'', PyBool False)]))
       (\<lambda>e. l_return [(''exists'', PyBool False), (''error'', PyStr (exn_str e))])"

definition get_total_certificates :: "BlockchainManager \<Rightarrow> int ledger_io" where
  "get_total_certificates self =
     l_try (l_call Call_getTotalCertificates (getTotalCertificates_call self))
       (\<lambda>e. l_return 0)"


section \<open>app.py: the student table, the session and the request\<close>

text \<open>
  A row of the table \<open>Student\<close>. The primary key \<open>id\<close> of the source is \<open>student_id\<close>.
  The three ledger columns hold what the handler assigns to them, or nothing.
\<close>

record Student =
  student_id :: nat
  full_name :: string
  matric_number :: string
  date_of_award :: string
  year_of_graduation :: string
  honors :: string
  course_of_study :: string
  certificate_hash :: string
  certificate_path :: string
  blockchain_tx_hash :: "pyval option"
  blockchain_block_number :: "pyval option"
  on_blockchain :: bool

text \<open>
  The texts handed to \<open>flash\<close>, one constructor for each, with the interpolated values as
  arguments:
  \<^item> \<open>All_fields_required\<close>: "Error: All fields are required!"
  \<^item> \<open>Matric_already_exists m\<close>: "Error: Certificate for Matric No. m already exists."
  \<^item> \<open>Saved_storing_on_blockchain\<close>: "Certificate saved to database. Storing on blockchain..."
  \<^item> \<open>Stored_on_blockchain t\<close>: "Certificate stored on blockchain! Tx: t..."
  \<^item> \<open>Blockchain_storage_failed v\<close>: "Blockchain storage failed: v. Certificate saved in
    database only."
  \<^item> \<open>Saved_blockchain_not_configured\<close>: "Certificate saved successfully! (Blockchain not
    configured)"
  \<^item> \<open>Database_error e\<close>: "Database Error: Could not save certificate data. e"
\<close>

datatype message =
    All_fields_required
  | Matric_already_exists string
  | Saved_storing_on_blockchain
  | Stored_on_blockchain string
  | Blockchain_storage_failed pyval
  | Saved_blockchain_not_configured
  | Database_error exn

datatype template_arg = Arg_student "Student option" | Arg_dict "pydict option"

datatype response =
    Render string "(string \<times> template_arg) list"
  | Redirect string "(string \<times> string) list"

record request =
  http_method :: string
  args :: "string \<rightharpoonup> string"
  form :: "string \<rightharpoonup> string"

text \<open>
  The world a handler runs in: the table, the flashed messages, the calls made so far, and
  what the outside will do: \<open>commit_faults\<close> gives, for each coming commit, the exception the
  database raises for a reason of its own (none when the list is used up), \<open>pdf_fault\<close> the
  exception that saving the certificate file raises. Queries are taken to succeed.
\<close>

record world =
  students :: "Student list"
  flashes :: "(message \<times> string) list"
  trace :: "event list"
  commit_faults :: "exn option list"
  pdf_fault :: "exn option"

type_synonym 'a io = "world \<Rightarrow> (exn + 'a) \<times> world"

definition io_return :: "'a \<Rightarrow> 'a io" where
  "io_return x = (\<lambda>w. (Inr x, w))"

definition io_raise :: "exn \<Rightarrow> 'a io" where
  "io_raise e = (\<lambda>w. (Inl e, w))"

definition io_bind :: "'a io \<Rightarrow> ('a \<Rightarrow> 'b io) \<Rightarrow> 'b io" where
  "io_bind m f = (\<lambda>w. case m w of (Inl e, w') \<Rightarrow> (Inl e, w') | (Inr x, w') \<Rightarrow> f x w')"

definition io_try :: "'a io \<Rightarrow> (exn \<Rightarrow> 'a io) \<Rightarrow> 'a io" where
  "io_try m handler = (\<lambda>w. case m w of (Inl e, w') \<Rightarrow> handler e w' | (Inr x, w') \<Rightarrow> (Inr x, w'))"

definition io_result :: "exn + 'a \<Rightarrow> 'a io" where
  "io_result r = (\<lambda>w. (r, w))"

definition io_ledger :: "'a ledger_io \<Rightarrow> 'a io" where
  "io_ledger m = (\<lambda>w. (fst m, w\<lparr>trace := trace w @ snd m\<rparr>))"

definition flash :: "message \<Rightarrow> string \<Rightarrow> unit io" where
  "flash msg category = (\<lambda>w. (Inr (), w\<lparr>flashes := flashes w @ [(msg, category)]\<rparr>))"

subsection \<open>The database session\<close>

definition query_filter_by_first :: "string \<Rightarrow> (Student \<Rightarrow> string) \<Rightarrow> string \<Rightarrow> Student option io" where
  "query_filter_by_first name column v =
     (\<lambda>w. (Inr (find (\<lambda>s. column s = v) (students w)),
            w\<lparr>trace := trace w @ [Db_query name v]\<rparr>))"

definition next_id :: "Student list \<Rightarrow> nat" where
  "next_id rows = fold max (map student_id rows) 0 + 1"

text \<open>
  The constraints of the table: \<open>matric_number\<close> and \<open>certificate_hash\<close> are unique. Of the
  text of the exception only the reason is kept.
\<close>

definition insert_row :: "Student \<Rightarrow> Student list \<Rightarrow> exn + nat \<times> Student list" where
  "insert_row s rows =
     (if list_ex (\<lambda>r. matric_number r = matric_number s) rows then
        Inl (Exn ''IntegrityError'' ''UNIQUE constraint failed: student.matric_number'')
      else if list_ex (\<lambda>r. certificate_hash r = certificate_hash s) rows then
        Inl (Exn ''IntegrityError'' ''UNIQUE constraint failed: student.certificate_hash'')
      else Inr (next_id rows, rows @ [s\<lparr>student_id := next_id rows\<rparr>]))"

definition update_row :: "nat \<Rightarrow> (Student \<Rightarrow> Student) \<Rightarrow> Student list \<Rightarrow> exn + unit \<times> Student list" where
  "update_row pk change rows =
     Inr ((), map (\<lambda>r. if student_id r = pk then change r else r) rows)"

text \<open>
  \<open>db.session.commit()\<close> with the pending change: either the database raises and the table
  is as before, or the change is in the table.
\<close>

definition next_commit_fault :: "world \<Rightarrow> exn option" where
  "next_commit_fault w = (case commit_faults w of Some e # rest \<Rightarrow> Some e | _ \<Rightarrow> None)"

definition db_commit :: "(Student list \<Rightarrow> exn + 'a \<times> Student list) \<Rightarrow> 'a io" where
  "db_commit change =
     (\<lambda>w. case (case next_commit_fault w of
                   Some e \<Rightarrow> Inl e
                 | None \<Rightarrow> change (students w)) of
             Inl e \<Rightarrow>
               (Inl e, w\<lparr>commit_faults := tl (commit_faults w),
                         trace := trace w @ [Db_commit (Some e)]\<rparr>)
           | Inr (x, rows) \<Rightarrow>
               (Inr x, w\<lparr>students := rows,
                         commit_faults := tl (commit_faults w),
                         trace := trace w @ [Db_commit None]\<rparr>))"

definition db_rollback :: "unit io" where
  "db_rollback = (\<lambda>w. (Inr (), w\<lparr>trace := trace w @ [Db_rollback]\<rparr>))"

subsection \<open>Strings of the request\<close>

definition isspace :: "char \<Rightarrow> bool" where
  "isspace c = ((of_char c :: nat) \<in> {9, 10, 11, 12, 13, 28, 29, 30, 31, 32, 133, 160})"

definition strip :: "string \<Rightarrow> string" where
  "strip s = rev (dropWhile isspace (rev (dropWhile isspace s)))"

definition get_strip :: "(string \<rightharpoonup> string) \<Rightarrow> string \<Rightarrow> string io" where
  "get_strip multidict k =
     (case multidict k of
        None \<Rightarrow> io_raise (Exn ''AttributeError''
                  (quoted ''NoneType'' @ '' object has no attribute '' @ quoted ''strip''))
      | Some v \<Rightarrow> io_return (strip v))"

subsection \<open>The certificate hash and the certificate file\<close>

definition certificate_data_string ::
    "string \<Rightarrow> string \<Rightarrow> string \<Rightarrow> string \<Rightarrow> string \<Rightarrow> string \<Rightarrow> string" where
  "certificate_data_string full_name' matric_number' year_of_graduation' date_of_award' honors'
       course_of_study' =
     full_name' @ ''|'' @ matric_number' @ ''|'' @ year_of_graduation' @ ''|'' @ date_of_award'
       @ ''|'' @ honors' @ ''|'' @ course_of_study'"

definition compute_certificate_hash ::
    "string \<Rightarrow> string \<Rightarrow> string \<Rightarrow> string \<Rightarrow> string \<Rightarrow> string \<Rightarrow> string" where
  "compute_certificate_hash full_name' matric_number' year_of_graduation' date_of_award' honors'
       course_of_study' =
     hexdigest (sha256 (encode_utf8 (certificate_data_string full_name' matric_number'
       year_of_graduation' date_of_award' honors' course_of_study')))"

text \<open>
  Of \<open>generate_certificate_pdf\<close> the path and the saving of the file are modelled, not the
  drawing. The path is \<open>os.path.join\<close> with the POSIX separator.
\<close>

definition pdf_file_path :: "string \<Rightarrow> string \<Rightarrow> string" where
  "pdf_file_path matric certificate_hash' =
     (let pdf_filename = map (\<lambda>c. if c = CHR ''/'' then CHR ''_'' else c) matric
                           @ ''_'' @ take 8 certificate_hash' @ ''.pdf''
      in ''certificates/'' @ pdf_filename)"

definition generate_certificate_pdf :: "(string \<times> string) list \<Rightarrow> string \<Rightarrow> string io" where
  "generate_certificate_pdf student_data certificate_hash' =
     (case map_of student_data ''matric_number'' of
        None \<Rightarrow> io_raise (Exn ''KeyError'' (quoted ''matric_number''))
      | Some matric \<Rightarrow>
          (let file_path = pdf_file_path matric certificate_hash'
           in (\<lambda>w. case pdf_fault w of
                      Some e \<Rightarrow> (Inl e, w)
                    | None \<Rightarrow> (Inr file_path, w\<lparr>trace := trace w @ [Pdf_save file_path]\<rparr>))))"

subsection \<open>The handlers\<close>

text \<open>
  \<open>blockchain\<close> is the module's global: a manager, or \<open>None\<close> when the ledger is not
  configured. The handlers are modelled for a logged-in caller.
\<close>

definition verify_certificate :: "BlockchainManager option \<Rightarrow> request \<Rightarrow> response io" where
  "verify_certificate blockchain req =
     io_bind
       (if http_method req = ''GET'' \<and> args req ''hash'' \<noteq> None then
          io_bind (get_strip (args req) ''hash'') (\<lambda>v. io_return (Some v))
        else if http_method req = ''POST'' then
          io_bind (get_strip (form req) ''certificate_hash'') (\<lambda>v. io_return (Some v))
        else io_return None) (\<lambda>hash_value.
     case hash_value of
       None \<Rightarrow> io_return (Render ''verify_certificate.html'' [])
     | Some hash_value' \<Rightarrow>
         if hash_value' \<noteq> [] then
           if length hash_value' = 64 then
             io_bind (query_filter_by_first ''certificate_hash'' certificate_hash hash_value')
               (\<lambda>student.
             io_bind (case blockchain of
                        Some manager \<Rightarrow>
                          io_bind (io_ledger (verify_certificate_on_blockchain manager hash_value'))
                            (\<lambda>r. io_return (Some r))
                      | None \<Rightarrow> io_return None) (\<lambda>blockchain_result.
             io_return (Render ''verification_results.html''
                          [(''student'', Arg_student student),
                           (''blockchain_result'', Arg_dict blockchain_result)])))
           else
             io_return (Render ''verification_results.html''
                          [(''student'', Arg_student None),
                           (''blockchain_result'', Arg_dict None)])
         else io_return (Render ''verify_certificate.html'' []))"

definition slice10 :: "pyval \<Rightarrow> exn + string" where
  "slice10 v =
     (case v of
        PyStr s \<Rightarrow> Inr (take 10 s)
      | PyInt i \<Rightarrow> Inl (Exn ''TypeError'' (quoted ''int'' @ '' object is not subscriptable''))
      | PyBool b \<Rightarrow> Inl (Exn ''TypeError'' (quoted ''bool'' @ '' object is not subscriptable'')))"

text \<open>The body of the \<open>try\<close> statement of \<open>upload_certificate_page\<close>.\<close>

definition upload_try ::
    "BlockchainManager option \<Rightarrow> Student \<Rightarrow> string \<Rightarrow> string \<Rightarrow> response io" where
  "upload_try blockchain new_student certificate_hash' matric_number' =
     io_bind (db_commit (insert_row new_student)) (\<lambda>pk.
     io_bind
       (case blockchain of
          Some manager \<Rightarrow>
            io_bind (flash Saved_storing_on_blockchain ''info'') (\<lambda>_.
            io_bind (io_ledger (store_certificate_on_blockchain manager certificate_hash'
                       matric_number')) (\<lambda>blockchain_result.
            io_bind (io_result (getitem blockchain_result ''success'')) (\<lambda>success.
            if truthy success then
              io_bind (io_result (getitem blockchain_result ''tx_hash'')) (\<lambda>tx_hash.
              io_bind (io_result (getitem blockchain_result ''block_number'')) (\<lambda>block_number.
              io_bind (db_commit (update_row pk (\<lambda>r. r\<lparr>blockchain_tx_hash := Some tx_hash,
                         blockchain_block_number := Some block_number,
                         on_blockchain := True\<rparr>))) (\<lambda>_.
              io_bind (io_result (getitem blockchain_result ''tx_hash'')) (\<lambda>tx_hash.
              io_bind (io_result (slice10 tx_hash)) (\<lambda>shown.
              flash (Stored_on_blockchain shown) ''success'')))))
            else
              io_bind (io_result (getitem blockchain_result ''error'')) (\<lambda>error.
              flash (Blockchain_storage_failed error) ''warning''))))
        | None \<Rightarrow> flash Saved_blockchain_not_configured ''success'') (\<lambda>_.
     io_return (Redirect ''upload_success_page'' [(''hash_value'', certificate_hash')])))"

text \<open>
  \<open>Student(...)\<close> with the keyword arguments of the source. The new object has no primary
  key yet (written 0 here), the insert gives it one; the ledger columns are unset and
  \<open>on_blockchain\<close> has its default.
\<close>

definition Student_init ::
    "string \<Rightarrow> string \<Rightarrow> string \<Rightarrow> string \<Rightarrow> string \<Rightarrow> string \<Rightarrow> string \<Rightarrow> string \<Rightarrow> Student" where
  "Student_init full_name' matric_number' year_of_graduation' date_of_award' honors'
       course_of_study' certificate_hash' certificate_path' =
     \<lparr>student_id = 0,
      full_name = full_name',
      matric_number = matric_number',
      date_of_award = date_of_award',
      year_of_graduation = year_of_graduation',
      honors = honors',
      course_of_study = course_of_study',
      certificate_hash = certificate_hash',
      certificate_path = certificate_path',
      blockchain_tx_hash = None,
      blockchain_block_number = None,
      on_blockchain = False\<rparr>"

text \<open>The \<open>except\<close> clause of \<open>upload_certificate_page\<close>.\<close>

definition upload_except :: "exn \<Rightarrow> response io" where
  "upload_except e =
     io_bind db_rollback (\<lambda>_.
     io_bind (flash (Database_error e) ''danger'') (\<lambda>_.
     io_return (Redirect ''upload_certificate_page'' [])))"

text \<open>The handler once the six fields are read and stripped.\<close>

definition upload_certificate_post ::
    "BlockchainManager option \<Rightarrow> string \<Rightarrow> string \<Rightarrow> string \<Rightarrow> string \<Rightarrow> string \<Rightarrow> string
       \<Rightarrow> response io" where
  "upload_certificate_post blockchain full_name' matric_number' year_of_graduation' date_of_award'
       honors' course_of_study' =
     (if \<not> list_all (\<lambda>s. s \<noteq> []) [full_name', matric_number', year_of_graduation',
            date_of_award', honors', course_of_study'] then
        io_bind (flash All_fields_required ''danger'') (\<lambda>_.
        io_return (Redirect ''upload_certificate_page'' []))
      else
        io_bind (query_filter_by_first ''matric_number'' matric_number matric_number')
          (\<lambda>existing.
        if existing \<noteq> None then
          io_bind (flash (Matric_already_exists matric_number') ''danger'') (\<lambda>_.
          io_return (Redirect ''upload_certificate_page'' []))
        else
          let certificate_hash' = compute_certificate_hash full_name' matric_number'
                year_of_graduation' date_of_award' honors' course_of_study';
              student_data = [(''full_name'', full_name'),
                              (''matric_number'', matric_number'),
                              (''year_of_graduation'', year_of_graduation'),
                              (''date_of_award'', date_of_award'),
                              (''honors'', honors'),
                              (''course_of_study'', course_of_study')]
          in
          io_bind (generate_certificate_pdf student_data certificate_hash')
            (\<lambda>certificate_path'.
          let new_student = Student_init full_name' matric_number' year_of_graduation'
                date_of_award' honors' course_of_study' certificate_hash' certificate_path'
          in
          io_try (upload_try blockchain new_student certificate_hash' matric_number')
            upload_except)))"

definition upload_certificate_page :: "BlockchainManager option \<Rightarrow> request \<Rightarrow> response io" where
  "upload_certificate_page blockchain req =
     (if http_method req = ''POST'' then
        io_bind (get_strip (form req) ''full_name'') (\<lambda>full_name'.
        io_bind (get_strip (form req) ''matric_number'') (\<lambda>matric_number'.
        io_bind (get_strip (form req) ''year_of_graduation'') (\<lambda>year_of_graduation'.
        io_bind (get_strip (form req) ''date_of_award'') (\<lambda>date_of_award'.
        io_bind (get_strip (form req) ''honors'') (\<lambda>honors'.
        io_bind (get_strip (form req) ''course_of_study'') (\<lambda>course_of_study'.
        upload_certificate_post blockchain full_name' matric_number' year_of_graduation'
          date_of_award' honors' course_of_study'))))))
      else io_return (Render ''upload_certificate.html'' []))"

section \<open>Notions used in the statements\<close>

text \<open>
  The fingerprint as the specification words it: the SHA-256 hex digest of the fields, in
  their order, joined with a delimiter.
\<close>

fun join_with :: "string \<Rightarrow> string list \<Rightarrow> string" where
  "join_with d [] = []"
| "join_with d [x] = x"
| "join_with d (x # y # ys) = x @ d @ join_with d (y # ys)"

definition spec_fingerprint :: "string list \<Rightarrow> string" where
  "spec_fingerprint field_values = hexdigest (sha256 (encode_utf8 (join_with ''|'' field_values)))"

definition lower_hex :: "char \<Rightarrow> bool" where
  "lower_hex c \<longleftrightarrow> c \<in> set ''0123456789abcdef''"

text \<open>
  A request that posts the six fields, none of them empty once stripped.
\<close>

definition submitted ::
    "request \<Rightarrow> string \<Rightarrow> string \<Rightarrow> string \<Rightarrow> string \<Rightarrow> string \<Rightarrow> string \<Rightarrow> bool" where
  "submitted req name matric year award hon course \<longleftrightarrow>
     http_method req = ''POST'' \<and>
     map_option strip (form req ''full_name'') = Some name \<and>
     map_option strip (form req ''matric_number'') = Some matric \<and>
     map_option strip (form req ''year_of_graduation'') = Some year \<and>
     map_option strip (form req ''date_of_award'') = Some award \<and>
     map_option strip (form req ''honors'') = Some hon \<and>
     map_option strip (form req ''course_of_study'') = Some course \<and>
     name \<noteq> [] \<and> matric \<noteq> [] \<and> year \<noteq> [] \<and> award \<noteq> [] \<and> hon \<noteq> [] \<and> course \<noteq> []"

text \<open>
  No request reaches the ledger before the first commit that succeeds.
\<close>

definition persisted_before_anchored :: "event list \<Rightarrow> bool" where
  "persisted_before_anchored evs =
     list_all (\<lambda>e. \<not> ledger_event e) (takeWhile (\<lambda>e. e \<noteq> Db_commit None) evs)"

definition new_events :: "world \<Rightarrow> world \<Rightarrow> event list" where
  "new_events w w' = drop (length (trace w)) (trace w')"

subsection \<open>Sample inputs\<close>

definition ledger_ok :: BlockchainManager where
  "ledger_ok =
     \<lparr>account_address = ''0xA11CE'',
      private_key = ''secret'',
      w3_is_connected = Inr True,
      w3_eth_get_balance = Inr (10 ^ 18),
      w3_eth_get_transaction_count = Inr 7,
      estimate_gas = (\<lambda>h m. Inr 90000),
      w3_eth_gas_price = Inr 1000000000,
      build_transaction = (\<lambda>h m params. Inr ((''data'', PyStr h) # params)),
      sign_transaction = (\<lambda>t k. Inr ''signed''),
      send_raw_transaction = (\<lambda>r. Inr ''ab12cd34ef56ab78''),
      wait_for_transaction_receipt =
        (\<lambda>h n. Inr [(''status'', PyInt 1), (''blockNumber'', PyInt 42), (''gasUsed'', PyInt 85000)]),
      verifyCertificate_call = (\<lambda>h. Inr (False, [], 0)),
      getTotalCertificates_call = Inr 0,
      fromtimestamp_strftime = (\<lambda>t. Inr ''1970-01-01 00:00:00''),
      str_float = (\<lambda>x. ''5e-18'')\<rparr>"

definition connection_refused :: exn where
  "connection_refused = Exn ''ConnectionError'' ''connection refused''"

definition ledger_unreachable :: BlockchainManager where
  "ledger_unreachable =
     ledger_ok\<lparr>w3_is_connected := Inl connection_refused,
               verifyCertificate_call := (\<lambda>h. Inl connection_refused),
               getTotalCertificates_call := Inl connection_refused\<rparr>"

definition disk_full :: exn where
  "disk_full = Exn ''OperationalError'' ''database or disk is full''"

definition empty_world :: world where
  "empty_world = \<lparr>students = [], flashes = [], trace = [], commit_faults = [], pdf_fault = None\<rparr>"

definition post_request :: "string \<Rightarrow> string \<Rightarrow> request" where
  "post_request name matric =
     \<lparr>http_method = ''POST'', args = Map.empty,
      form = map_of [(''full_name'', name),
                     (''matric_number'', matric),
                     (''year_of_graduation'', ''2024''),
                     (''date_of_award'', ''2024-07-01''),
                     (''honors'', ''Second Class Upper''),
                     (''course_of_study'', ''Computer Science'')]\<rparr>"

definition sample_hash :: "string \<Rightarrow> string \<Rightarrow> string" where
  "sample_hash name matric =
     compute_certificate_hash name matric ''2024'' ''2024-07-01'' ''Second Class Upper''
       ''Computer Science''"

definition get_request :: "string \<Rightarrow> request" where
  "get_request h = \<lparr>http_method = ''GET'', args = [''hash'' \<mapsto> h], form = Map.empty\<rparr>"

text \<open>
  A table that holds the certificate of the student named "A|B" with matric number "C".
\<close>

definition one_row_world :: world where
  "one_row_world =
     empty_world\<lparr>students :=
       [(Student_init ''A|B'' ''C'' ''2024'' ''2024-07-01'' ''Second Class Upper''
           ''Computer Science'' (sample_hash ''A|B'' ''C'')
           (pdf_file_path ''C'' (sample_hash ''A|B'' ''C'')))\<lparr>student_id := 1\<rparr>]\<rparr>"

section \<open>The fingerprint\<close>

lemma length_hexdigest: "length (hexdigest bs) = 2 * length bs"
  by (induction bs) (simp_all add: hexdigest_def hex_byte_def)

lemma length_sha256: "length (sha256 m) = 32"
  by (simp add: sha256_def word_bytes_def split: prod.splits)

lemma hexdigit_is_hex: "lower_hex (hexdigit n)"
proof -
  have "n mod 16 < length ''0123456789abcdef''"
    by simp
  then have "''0123456789abcdef'' ! (n mod 16) \<in> set ''0123456789abcdef''"
    by (rule nth_mem)
  then show ?thesis
    by (simp only: hexdigit_def lower_hex_def)
qed

lemma hexdigest_is_hex: "list_all lower_hex (hexdigest bs)"
proof (induction bs)
  case Nil
  show ?case by (simp add: hexdigest_def)
next
  case (Cons b bs)
  have "list_all lower_hex (hex_byte b)"
    by (simp add: hex_byte_def hexdigit_is_hex)
  with Cons show ?case
    by (simp add: hexdigest_def)
qed

text \<open>The model of the digest agrees with the standard's test vector for "abc".\<close>

lemma sha256_abc:
  "hexdigest (sha256 (encode_utf8 ''abc'')) =
     ''ba7816bf8f01cfea414140de5dae2223b00361a396177a9cb410ff61f20015ad''"
  by code_simp

text \<open>
  C2. The certificate hash is a function of the six fields and of nothing else, so equal
  fields give equal hashes. It is the SHA-256 hex digest of the fields joined with "|" in
  the order name, matric number, year of graduation, date of award, honours, course; it has
  64 characters, all of them lower-case hexadecimal digits, empty fields included.
\<close>

theorem certificate_hash_is_sha256_hex:
  "compute_certificate_hash name matric year award hon course
     = spec_fingerprint [name, matric, year, award, hon, course]
   \<and> length (compute_certificate_hash name matric year award hon course) = 64
   \<and> list_all lower_hex (compute_certificate_hash name matric year award hon course)"
  by (simp add: compute_certificate_hash_def spec_fingerprint_def certificate_data_string_def
      length_hexdigest length_sha256 hexdigest_is_hex)

section \<open>The ledger client\<close>

lemmas l_defs = l_return_def l_call_def l_bind_def l_try_def

lemma store_certificate_try_shape:
  assumes "store_certificate_try self h m = (Inr d, t)"
  shows "(map_of d ''success'' = Some (PyBool True) \<and>
            (\<exists>tx bn. map_of d ''tx_hash'' = Some (PyStr tx) \<and> map_of d ''block_number'' = Some bn))
         \<or> (map_of d ''success'' = Some (PyBool False) \<and>
            (\<exists>cause. map_of d ''error'' = Some (PyStr cause)))"
  using assms
  unfolding store_certificate_try_def is_connected_def get_balance_def
  by (auto simp: l_defs Let_def split: sum.splits if_splits prod.splits)

lemma store_certificate_shape:
  "\<exists>d t. store_certificate_on_blockchain self h m = (Inr d, t) \<and>
     ((map_of d ''success'' = Some (PyBool True) \<and>
         (\<exists>tx bn. map_of d ''tx_hash'' = Some (PyStr tx) \<and> map_of d ''block_number'' = Some bn))
      \<or> (map_of d ''success'' = Some (PyBool False) \<and>
         (\<exists>cause. map_of d ''error'' = Some (PyStr cause))))"
proof (cases "store_certificate_try self h m")
  case (Pair r t)
  show ?thesis
  proof (cases r)
    case (Inl e)
    with Pair show ?thesis
      by (simp add: store_certificate_on_blockchain_def l_try_def l_return_def)
  next
    case (Inr d)
    with Pair store_certificate_try_shape [of self h m d t] show ?thesis
      by (simp add: store_certificate_on_blockchain_def l_try_def)
  qed
qed

text \<open>
  C5. \<open>store_certificate_on_blockchain\<close> never raises: whatever the node answers to each
  call (a value or an exception), it returns a dictionary whose \<open>success\<close> entry is
  \<open>True\<close>, or \<open>False\<close> together with an \<open>error\<close> entry that holds a text.
\<close>

theorem store_certificate_never_raises:
  "\<exists>d t. store_certificate_on_blockchain self h m = (Inr d, t) \<and>
     (map_of d ''success'' = Some (PyBool True)
      \<or> (map_of d ''success'' = Some (PyBool False) \<and>
         (\<exists>cause. map_of d ''error'' = Some (PyStr cause))))"
  using store_certificate_shape [of self h m] by blast

lemma store_not_connected:
  assumes "w3_is_connected self = Inr False"
  shows "store_certificate_on_blockchain self h m =
     (Inr [(''success'', PyBool False), (''error'', PyStr ''Not connected to blockchain network'')],
      [W3_is_connected])"
  using assms
  by (simp add: store_certificate_on_blockchain_def store_certificate_try_def is_connected_def
      l_defs)

lemma store_insufficient_balance:
  assumes "w3_is_connected self = Inr True" and "w3_eth_get_balance self = Inr wei"
    and "rat_of_nat wei / 10 ^ 18 < 1 / 1000"
  shows "store_certificate_on_blockchain self h m =
     (Inr [(''success'', PyBool False),
           (''error'', PyStr (''Insufficient balance: '' @ str_float self (rat_of_nat wei / 10 ^ 18)
                                @ '' ETH. Need at least 0.001 ETH''))],
      [W3_is_connected, W3_get_balance])"
  using assms
  by (simp add: store_certificate_on_blockchain_def store_certificate_try_def is_connected_def
      get_balance_def l_defs)

text \<open>
  C8. The preconditions come first and in order. When the node is not connected the result is
  the failure "Not connected to blockchain network" and the only call made is the connection
  check. When it is connected and the balance is below 0.001 ETH the result is the failure
  "Insufficient balance" and the only calls are the connection check and the balance query.
  In both cases no transaction is built, signed or sent.
\<close>

theorem anchor_preconditions_first:
  "(w3_is_connected self = Inr False \<longrightarrow>
      store_certificate_on_blockchain self h m =
        (Inr [(''success'', PyBool False),
              (''error'', PyStr ''Not connected to blockchain network'')],
         [W3_is_connected])
      \<and> \<not> list_ex transaction_event (snd (store_certificate_on_blockchain self h m)))
   \<and> (w3_is_connected self = Inr True \<and> w3_eth_get_balance self = Inr wei
        \<and> rat_of_nat wei / 10 ^ 18 < 1 / 1000 \<longrightarrow>
      store_certificate_on_blockchain self h m =
        (Inr [(''success'', PyBool False),
              (''error'', PyStr (''Insufficient balance: ''
                 @ str_float self (rat_of_nat wei / 10 ^ 18)
                 @ '' ETH. Need at least 0.001 ETH''))],
         [W3_is_connected, W3_get_balance])
      \<and> \<not> list_ex transaction_event (snd (store_certificate_on_blockchain self h m)))"
  by (simp add: store_not_connected store_insufficient_balance)

theorem anchor_preconditions_first_witness:
  "w3_is_connected (ledger_ok\<lparr>w3_is_connected := Inr False\<rparr>) = Inr False
   \<and> store_certificate_on_blockchain (ledger_ok\<lparr>w3_is_connected := Inr False\<rparr>) ''ab'' ''CS/1'' =
       (Inr [(''success'', PyBool False),
             (''error'', PyStr ''Not connected to blockchain network'')],
        [W3_is_connected])
   \<and> w3_is_connected (ledger_ok\<lparr>w3_eth_get_balance := Inr 5\<rparr>) = Inr True
   \<and> w3_eth_get_balance (ledger_ok\<lparr>w3_eth_get_balance := Inr 5\<rparr>) = Inr 5
   \<and> rat_of_nat 5 / 10 ^ 18 < 1 / 1000
   \<and> store_certificate_on_blockchain (ledger_ok\<lparr>w3_eth_get_balance := Inr 5\<rparr>) ''ab'' ''CS/1'' =
       (Inr [(''success'', PyBool False),
             (''error'', PyStr ''Insufficient balance: 5e-18 ETH. Need at least 0.001 ETH'')],
        [W3_is_connected, W3_get_balance])"
proof -
  have off: "w3_is_connected (ledger_ok\<lparr>w3_is_connected := Inr False\<rparr>) = Inr False"
    by simp
  have on: "w3_is_connected (ledger_ok\<lparr>w3_eth_get_balance := Inr 5\<rparr>) = Inr True"
    by (simp add: ledger_ok_def)
  have bal: "w3_eth_get_balance (ledger_ok\<lparr>w3_eth_get_balance := Inr 5\<rparr>) = Inr 5"
    by simp
  have low: "rat_of_nat 5 / 10 ^ 18 < 1 / 1000"
    by simp
  have shown: "str_float (ledger_ok\<lparr>w3_eth_get_balance := Inr 5\<rparr>) (rat_of_nat 5 / 10 ^ 18) = ''5e-18''"
    by (simp add: ledger_ok_def)
  from anchor_preconditions_first
         [where self = "ledger_ok\<lparr>w3_is_connected := Inr False\<rparr>" and h = "''ab''"
            and m = "''CS/1''"]
       anchor_preconditions_first
         [where self = "ledger_ok\<lparr>w3_eth_get_balance := Inr 5\<rparr>" and h = "''ab''"
            and m = "''CS/1''" and wei = 5]
       off on bal low shown
  show ?thesis by simp
qed

lemma verify_trace:
  "snd (verify_certificate_on_blockchain self h) = [Call_verifyCertificate h]"
  by (auto simp: verify_certificate_on_blockchain_def l_defs split: sum.splits prod.splits)

lemma verify_unreachable:
  assumes "verifyCertificate_call self h = Inl e"
  shows "fst (verify_certificate_on_blockchain self h) =
     Inr [(''exists'', PyBool False), (''error'', PyStr (exn_str e))]"
  using assms by (simp add: verify_certificate_on_blockchain_def l_defs)

lemma verify_not_found:
  assumes "verifyCertificate_call self h = Inr (False, mn, ts)"
  shows "fst (verify_certificate_on_blockchain self h) = Inr [(''exists'', PyBool False)]"
  using assms by (simp add: verify_certificate_on_blockchain_def l_defs)

text \<open>
  C7. \<open>verify_certificate_on_blockchain\<close> makes one call, the read \<open>verifyCertificate\<close>, and
  nothing else. When that call raises, the result has \<open>exists\<close> false and an \<open>error\<close> entry
  with the text of the exception; when the contract answers "not found", the result has
  \<open>exists\<close> false and no \<open>error\<close> entry. The two results differ.
\<close>

theorem ledger_unreachable_is_not_not_found:
  assumes "verifyCertificate_call down h = Inl e"
    and "verifyCertificate_call up h = Inr (False, mn, ts)"
  shows "fst (verify_certificate_on_blockchain down h) =
           Inr [(''exists'', PyBool False), (''error'', PyStr (exn_str e))]
       \<and> fst (verify_certificate_on_blockchain up h) = Inr [(''exists'', PyBool False)]
       \<and> fst (verify_certificate_on_blockchain down h) \<noteq> fst (verify_certificate_on_blockchain up h)
       \<and> snd (verify_certificate_on_blockchain down h) = [Call_verifyCertificate h]
       \<and> snd (verify_certificate_on_blockchain up h) = [Call_verifyCertificate h]"
  by (simp add: verify_unreachable [OF assms(1)] verify_not_found [OF assms(2)] verify_trace)

theorem ledger_unreachable_is_not_not_found_witness:
  "verifyCertificate_call ledger_unreachable ''ab'' = Inl connection_refused
   \<and> verifyCertificate_call ledger_ok ''ab'' = Inr (False, [], 0)
   \<and> fst (verify_certificate_on_blockchain ledger_unreachable ''ab'') =
       Inr [(''exists'', PyBool False), (''error'', PyStr ''connection refused'')]
   \<and> fst (verify_certificate_on_blockchain ledger_ok ''ab'') = Inr [(''exists'', PyBool False)]"
proof -
  have down: "verifyCertificate_call ledger_unreachable ''ab'' = Inl connection_refused"
    by (simp add: ledger_unreachable_def)
  have up: "verifyCertificate_call ledger_ok ''ab'' = Inr (False, [], 0)"
    by (simp add: ledger_ok_def)
  have msg: "exn_str connection_refused = ''connection refused''"
    by (simp add: connection_refused_def)
  from ledger_unreachable_is_not_not_found [OF down up] down up msg
  show ?thesis by simp
qed

text \<open>
  C10. When the call \<open>getTotalCertificates\<close> raises, \<open>get_total_certificates\<close> returns 0, which
  is also what it returns for a ledger that holds no certificate: result and calls are the
  same, so the caller cannot tell the two apart.
\<close>

theorem total_is_zero_when_unreachable:
  assumes "getTotalCertificates_call down = Inl e"
    and "getTotalCertificates_call up = Inr 0"
  shows "get_total_certificates down = (Inr 0, [Call_getTotalCertificates])
       \<and> get_total_certificates down = get_total_certificates up"
  using assms by (simp add: get_total_certificates_def l_defs)

theorem total_is_zero_when_unreachable_witness:
  "getTotalCertificates_call ledger_unreachable = Inl connection_refused
   \<and> getTotalCertificates_call ledger_ok = Inr 0
   \<and> get_total_certificates ledger_unreachable = (Inr 0, [Call_getTotalCertificates])
   \<and> get_total_certificates ledger_unreachable = get_total_certificates ledger_ok"
proof -
  have down: "getTotalCertificates_call ledger_unreachable = Inl connection_refused"
    by (simp add: ledger_unreachable_def)
  have up: "getTotalCertificates_call ledger_ok = Inr 0"
    by (simp add: ledger_ok_def)
  from total_is_zero_when_unreachable [OF down up] down up
  show ?thesis by blast
qed

section \<open>Issuance\<close>

lemmas io_defs = io_return_def io_raise_def io_bind_def io_try_def io_result_def io_ledger_def
  flash_def

lemma find_None_list_ex: "find P xs = None \<longleftrightarrow> \<not> list_ex P xs"
  by (induction xs) auto

lemma next_commit_fault_frame [simp]:
  "next_commit_fault (w\<lparr>trace := t\<rparr>) = next_commit_fault w"
  "next_commit_fault (w\<lparr>flashes := f\<rparr>) = next_commit_fault w"
  "next_commit_fault (w\<lparr>students := r\<rparr>) = next_commit_fault w"
  by (simp_all add: next_commit_fault_def)

lemma upload_submitted:
  assumes "submitted req name matric year award hon course"
  shows "upload_certificate_page blockchain req =
    upload_certificate_post blockchain name matric year award hon course"
  using assms
  by (auto simp: submitted_def upload_certificate_page_def get_strip_def io_defs)

text \<open>A submitted request with a new matric number reaches the \<open>try\<close> statement.\<close>

lemma upload_reaches_try:
  assumes "submitted req name matric year award hon course"
    and "find (\<lambda>s. matric_number s = matric) (students w) = None"
    and "pdf_fault w = None"
  shows "upload_certificate_page blockchain req w =
    io_try
      (upload_try blockchain
         (Student_init name matric year award hon course
            (compute_certificate_hash name matric year award hon course)
            (pdf_file_path matric (compute_certificate_hash name matric year award hon course)))
         (compute_certificate_hash name matric year award hon course) matric)
      upload_except
      (w\<lparr>trace := trace w @ [Db_query ''matric_number'' matric,
          Pdf_save (pdf_file_path matric (compute_certificate_hash name matric year award hon course))]\<rparr>)"
  using assms
  by (simp add: upload_submitted [OF assms(1)] upload_certificate_post_def submitted_def
      query_filter_by_first_def generate_certificate_pdf_def Let_def io_defs)

text \<open>The first commit fails: rollback, the flash "Database Error" and the upload page.\<close>

lemma upload_try_first_commit_fails:
  assumes "next_commit_fault w = Some e
           \<or> (next_commit_fault w = None \<and> insert_row s (students w) = Inl e)"
  shows "io_try (upload_try blockchain s h matric) upload_except w =
    (Inr (Redirect ''upload_certificate_page'' []),
     w\<lparr>flashes := flashes w @ [(Database_error e, ''danger'')],
       trace := trace w @ [Db_commit (Some e), Db_rollback],
       commit_faults := tl (commit_faults w)\<rparr>)"
  using assms
  by (auto simp: upload_try_def upload_except_def db_commit_def db_rollback_def io_defs)

text \<open>The first commit succeeds and the ledger reports a failure.\<close>

lemma upload_try_anchor_failed:
  assumes "next_commit_fault w = None"
    and "insert_row s (students w) = Inr (pk, rows)"
    and "store_certificate_on_blockchain manager h matric = (Inr d, t)"
    and "map_of d ''success'' = Some (PyBool False)"
    and "map_of d ''error'' = Some cause"
  shows "io_try (upload_try (Some manager) s h matric) upload_except w =
    (Inr (Redirect ''upload_success_page'' [(''hash_value'', h)]),
     w\<lparr>students := rows,
       flashes := flashes w @ [(Saved_storing_on_blockchain, ''info''),
                               (Blockchain_storage_failed cause, ''warning'')],
       trace := trace w @ [Db_commit None] @ t,
       commit_faults := tl (commit_faults w)\<rparr>)"
  using assms
  by (simp add: upload_try_def db_commit_def getitem_def truthy_def io_defs)

text \<open>The first commit succeeds, the ledger reports success and the second commit fails.\<close>

lemma upload_try_second_commit_fails:
  assumes "commit_faults w = None # Some e # rest"
    and "insert_row s (students w) = Inr (pk, rows)"
    and "store_certificate_on_blockchain manager h matric = (Inr d, t)"
    and "map_of d ''success'' = Some (PyBool True)"
    and "map_of d ''tx_hash'' = Some tx"
    and "map_of d ''block_number'' = Some bn"
  shows "io_try (upload_try (Some manager) s h matric) upload_except w =
    (Inr (Redirect ''upload_certificate_page'' []),
     w\<lparr>students := rows,
       flashes := flashes w @ [(Saved_storing_on_blockchain, ''info''),
                               (Database_error e, ''danger'')],
       trace := trace w @ [Db_commit None] @ t @ [Db_commit (Some e), Db_rollback],
       commit_faults := rest\<rparr>)"
  using assms
  by (simp add: upload_try_def upload_except_def db_commit_def db_rollback_def
      next_commit_fault_def getitem_def truthy_def io_defs)

subsection \<open>Order of persistence and anchoring\<close>

lemma persisted_before_anchored_simps:
  "persisted_before_anchored []"
  "persisted_before_anchored (Db_commit None # evs)"
  "persisted_before_anchored (Db_commit (Some e) # evs) = persisted_before_anchored evs"
  "persisted_before_anchored (Db_query c v # evs) = persisted_before_anchored evs"
  "persisted_before_anchored (Pdf_save p # evs) = persisted_before_anchored evs"
  "persisted_before_anchored (Db_rollback # evs) = persisted_before_anchored evs"
  by (simp_all add: persisted_before_anchored_def)

lemma upload_try_trace:
  "\<exists>evs. trace (snd (io_try (upload_try blockchain s h matric) upload_except w)) = trace w @ evs
         \<and> persisted_before_anchored evs"
proof (cases "next_commit_fault w")
  case (Some e)
  then show ?thesis
    by (simp add: upload_try_first_commit_fails persisted_before_anchored_simps)
next
  case None
  show ?thesis
  proof (cases "insert_row s (students w)")
    case (Inl e)
    with None show ?thesis
      by (simp add: upload_try_first_commit_fails persisted_before_anchored_simps)
  next
    case (Inr p)
    obtain pk rows where p: "p = (pk, rows)"
      by (cases p)
    have "\<exists>evs. trace (snd (io_try (upload_try blockchain s h matric) upload_except w))
            = trace w @ Db_commit None # evs"
    proof (cases blockchain)
      case no_ledger: None
      with \<open>next_commit_fault w = None\<close> Inr p show ?thesis
        by (simp add: upload_try_def db_commit_def io_defs)
    next
      case (Some manager)
      obtain r t where st: "store_certificate_on_blockchain manager h matric = (r, t)"
        by (cases "store_certificate_on_blockchain manager h matric")
      with \<open>next_commit_fault w = None\<close> Inr p Some show ?thesis
        by (auto simp: upload_try_def upload_except_def db_commit_def db_rollback_def io_defs
            split: sum.splits prod.splits option.splits)
    qed
    then show ?thesis
      by (auto simp: persisted_before_anchored_simps)
  qed
qed

lemma upload_post_trace:
  "\<exists>evs. trace (snd (upload_certificate_post blockchain name matric year award hon course w))
           = trace w @ evs
         \<and> persisted_before_anchored evs"
proof (cases "list_all (\<lambda>s. s \<noteq> []) [name, matric, year, award, hon, course]
              \<and> find (\<lambda>s. matric_number s = matric) (students w) = None \<and> pdf_fault w = None")
  case True
  let ?h = "compute_certificate_hash name matric year award hon course"
  let ?w1 = "w\<lparr>trace := trace w @ [Db_query ''matric_number'' matric,
                  Pdf_save (pdf_file_path matric ?h)]\<rparr>"
  let ?s = "Student_init name matric year award hon course ?h (pdf_file_path matric ?h)"
  from True have run: "upload_certificate_post blockchain name matric year award hon course w =
      io_try (upload_try blockchain ?s ?h matric) upload_except ?w1"
    by (simp add: upload_certificate_post_def query_filter_by_first_def
        generate_certificate_pdf_def Let_def io_defs)
  from upload_try_trace [of blockchain ?s ?h matric ?w1]
  obtain evs where evs: "trace (snd (io_try (upload_try blockchain ?s ?h matric) upload_except ?w1))
        = trace ?w1 @ evs" "persisted_before_anchored evs"
    by blast
  have "trace (snd (upload_certificate_post blockchain name matric year award hon course w))
        = trace w @ (Db_query ''matric_number'' matric # Pdf_save (pdf_file_path matric ?h) # evs)"
    using run evs(1) by simp
  moreover have "persisted_before_anchored
      (Db_query ''matric_number'' matric # Pdf_save (pdf_file_path matric ?h) # evs)"
    using evs(2) by (simp add: persisted_before_anchored_simps)
  ultimately show ?thesis
    by blast
next
  case False
  then show ?thesis
    by (auto simp: upload_certificate_post_def query_filter_by_first_def
        generate_certificate_pdf_def Let_def io_defs persisted_before_anchored_simps
        split: option.splits)
qed

lemma upload_page_trace:
  "\<exists>evs. trace (snd (upload_certificate_page blockchain req w)) = trace w @ evs
         \<and> persisted_before_anchored evs"
proof -
  have stop: "\<exists>evs. trace w = trace w @ evs \<and> persisted_before_anchored evs"
    by (simp add: persisted_before_anchored_simps)
  show ?thesis
    using stop upload_post_trace [of blockchain _ _ _ _ _ _ w]
    by (auto simp: upload_certificate_page_def get_strip_def io_defs split: option.splits)
qed

lemma upload_page_persisted_before_anchored:
  "persisted_before_anchored (new_events w (snd (upload_certificate_page blockchain req w)))"
proof -
  from upload_page_trace [of blockchain req w]
  obtain evs where "trace (snd (upload_certificate_page blockchain req w)) = trace w @ evs"
    and "persisted_before_anchored evs"
    by blast
  then show ?thesis
    by (simp add: new_events_def)
qed

lemma upload_first_commit_fails:
  assumes "submitted req name matric year award hon course"
    and "find (\<lambda>s. matric_number s = matric) (students w) = None"
    and "pdf_fault w = None"
    and "next_commit_fault w = Some e
         \<or> (next_commit_fault w = None
            \<and> list_ex (\<lambda>s. certificate_hash s
                              = compute_certificate_hash name matric year award hon course)
                 (students w)
            \<and> e = Exn ''IntegrityError'' ''UNIQUE constraint failed: student.certificate_hash'')"
  shows "upload_certificate_page blockchain req w =
    (Inr (Redirect ''upload_certificate_page'' []),
     w\<lparr>flashes := flashes w @ [(Database_error e, ''danger'')],
       trace := trace w @ [Db_query ''matric_number'' matric,
                  Pdf_save (pdf_file_path matric
                    (compute_certificate_hash name matric year award hon course)),
                  Db_commit (Some e), Db_rollback],
       commit_faults := tl (commit_faults w)\<rparr>)"
proof -
  let ?h = "compute_certificate_hash name matric year award hon course"
  let ?s = "Student_init name matric year award hon course ?h (pdf_file_path matric ?h)"
  let ?w1 = "w\<lparr>trace := trace w @ [Db_query ''matric_number'' matric,
                  Pdf_save (pdf_file_path matric ?h)]\<rparr>"
  from assms(2) have "insert_row ?s (students w) =
      (if list_ex (\<lambda>r. certificate_hash r = ?h) (students w)
       then Inl (Exn ''IntegrityError'' ''UNIQUE constraint failed: student.certificate_hash'')
       else Inr (next_id (students w), students w @ [?s\<lparr>student_id := next_id (students w)\<rparr>]))"
    by (simp add: insert_row_def Student_init_def find_None_list_ex)
  with assms(4) have "next_commit_fault ?w1 = Some e
      \<or> (next_commit_fault ?w1 = None \<and> insert_row ?s (students ?w1) = Inl e)"
    by auto
  from upload_try_first_commit_fails [OF this]
  show ?thesis
    by (simp add: upload_reaches_try [OF assms(1-3)])
qed

text \<open>
  C6. Within one issuance no call to the ledger is made before a commit has succeeded; this
  holds for every request, every table and every behaviour of the database and the ledger.
  When the first commit fails, because the database raises or because the hash is already in
  the table, the handler rolls back, flashes "Database Error", redirects to the upload page
  and has made no ledger call; the table is as before.
\<close>

theorem never_anchors_before_persisting:
  "persisted_before_anchored (new_events w (snd (upload_certificate_page blockchain req w)))
   \<and> (submitted req name matric year award hon course
        \<and> find (\<lambda>s. matric_number s = matric) (students w) = None
        \<and> pdf_fault w = None
        \<and> (next_commit_fault w = Some e
            \<or> (next_commit_fault w = None
               \<and> list_ex (\<lambda>s. certificate_hash s
                                 = compute_certificate_hash name matric year award hon course)
                    (students w)
               \<and> e = Exn ''IntegrityError''
                        ''UNIQUE constraint failed: student.certificate_hash'')) \<longrightarrow>
      upload_certificate_page blockchain req w =
        (Inr (Redirect ''upload_certificate_page'' []),
         w\<lparr>flashes := flashes w @ [(Database_error e, ''danger'')],
           trace := trace w @ [Db_query ''matric_number'' matric,
                      Pdf_save (pdf_file_path matric
                        (compute_certificate_hash name matric year award hon course)),
                      Db_commit (Some e), Db_rollback],
           commit_faults := tl (commit_faults w)\<rparr>))"
  using upload_page_persisted_before_anchored [of w blockchain req]
    upload_first_commit_fails [of req name matric year award hon course w e blockchain]
  by blast

subsection \<open>The sample inputs\<close>

lemma post_request_submitted:
  "submitted (post_request ''Jane Doe'' ''CS/2020/001'') ''Jane Doe'' ''CS/2020/001'' ''2024''
     ''2024-07-01'' ''Second Class Upper'' ''Computer Science''"
  by (simp add: submitted_def post_request_def strip_def isspace_def)

lemma post_request_submitted_pipe:
  "submitted (post_request ''A'' ''B|C'') ''A'' ''B|C'' ''2024'' ''2024-07-01''
     ''Second Class Upper'' ''Computer Science''"
  by (simp add: submitted_def post_request_def strip_def isspace_def)

lemma sample_hash_pipe: "sample_hash ''A'' ''B|C'' = sample_hash ''A|B'' ''C''"
  by (simp add: sample_hash_def compute_certificate_hash_def certificate_data_string_def)

lemma store_ledger_ok:
  "store_certificate_on_blockchain ledger_ok h m =
     (Inr [(''success'', PyBool True), (''tx_hash'', PyStr ''ab12cd34ef56ab78''),
           (''block_number'', PyInt 42), (''gas_used'', PyInt 85000)],
      [W3_is_connected, W3_get_balance, W3_get_transaction_count, Estimate_gas h m, W3_gas_price,
       Build_transaction h m [(''from'', PyStr ''0xA11CE''), (''nonce'', PyInt 7),
         (''gas'', PyInt 100000), (''gasPrice'', PyInt 1000000000)],
       Sign_transaction [(''data'', PyStr h), (''from'', PyStr ''0xA11CE''), (''nonce'', PyInt 7),
         (''gas'', PyInt 100000), (''gasPrice'', PyInt 1000000000)],
       Send_raw_transaction ''signed'',
       Wait_for_transaction_receipt ''ab12cd34ef56ab78'' 120])"
  by (simp add: store_certificate_on_blockchain_def store_certificate_try_def is_connected_def
      get_balance_def ledger_ok_def getitem_def equals_one_def Let_def l_defs)

theorem never_anchors_before_persisting_witness:
  "submitted (post_request ''Jane Doe'' ''CS/2020/001'') ''Jane Doe'' ''CS/2020/001'' ''2024''
     ''2024-07-01'' ''Second Class Upper'' ''Computer Science''
   \<and> next_commit_fault (empty_world\<lparr>commit_faults := [Some disk_full]\<rparr>) = Some disk_full
   \<and> upload_certificate_page (Some ledger_ok) (post_request ''Jane Doe'' ''CS/2020/001'')
         (empty_world\<lparr>commit_faults := [Some disk_full]\<rparr>) =
       (Inr (Redirect ''upload_certificate_page'' []),
        empty_world\<lparr>flashes := [(Database_error disk_full, ''danger'')],
          trace := [Db_query ''matric_number'' ''CS/2020/001'',
                    Pdf_save (pdf_file_path ''CS/2020/001'' (sample_hash ''Jane Doe'' ''CS/2020/001'')),
                    Db_commit (Some disk_full), Db_rollback]\<rparr>)"
proof -
  let ?w = "empty_world\<lparr>commit_faults := [Some disk_full]\<rparr>"
  have fault: "next_commit_fault ?w = Some disk_full"
    by (simp add: next_commit_fault_def)
  have new: "find (\<lambda>s. matric_number s = ''CS/2020/001'') (students ?w) = None"
    by (simp add: empty_world_def)
  have pdf: "pdf_fault ?w = None"
    by (simp add: empty_world_def)
  from never_anchors_before_persisting
         [where w = ?w and blockchain = "Some ledger_ok"
            and req = "post_request ''Jane Doe'' ''CS/2020/001''"
            and name = "''Jane Doe''" and matric = "''CS/2020/001''" and year = "''2024''"
            and award = "''2024-07-01''" and hon = "''Second Class Upper''"
            and course = "''Computer Science''" and e = disk_full]
       post_request_submitted fault new pdf
  show ?thesis
    by (simp add: empty_world_def sample_hash_def)
qed

subsection \<open>The ledger fails after the record is stored\<close>

text \<open>
  C9. When the record is stored and the ledger call then returns a failure, the response is
  the redirect to the success page, the flashes are the notice and the warning that carries
  the ledger's reason, and the table holds the new row with no transaction hash, no block
  number and \<open>on_blockchain\<close> false.
\<close>

theorem anchor_failure_keeps_record:
  assumes "submitted req name matric year award hon course"
    and "find (\<lambda>s. matric_number s = matric) (students w) = None"
    and "\<not> list_ex (\<lambda>s. certificate_hash s
                           = compute_certificate_hash name matric year award hon course)
             (students w)"
    and "pdf_fault w = None"
    and "next_commit_fault w = None"
    and "store_certificate_on_blockchain manager
           (compute_certificate_hash name matric year award hon course) matric = (Inr d, t)"
    and "map_of d ''success'' = Some (PyBool False)"
  shows "\<exists>cause row.
      map_of d ''error'' = Some cause
      \<and> certificate_hash row = compute_certificate_hash name matric year award hon course
      \<and> matric_number row = matric
      \<and> blockchain_tx_hash row = None
      \<and> blockchain_block_number row = None
      \<and> \<not> on_blockchain row
      \<and> upload_certificate_page (Some manager) req w =
          (Inr (Redirect ''upload_success_page''
                  [(''hash_value'', compute_certificate_hash name matric year award hon course)]),
           w\<lparr>students := students w @ [row],
             flashes := flashes w @ [(Saved_storing_on_blockchain, ''info''),
                                     (Blockchain_storage_failed cause, ''warning'')],
             trace := trace w @ [Db_query ''matric_number'' matric,
                        Pdf_save (pdf_file_path matric
                          (compute_certificate_hash name matric year award hon course)),
                        Db_commit None] @ t,
             commit_faults := tl (commit_faults w)\<rparr>)"
proof -
  let ?h = "compute_certificate_hash name matric year award hon course"
  let ?s = "Student_init name matric year award hon course ?h (pdf_file_path matric ?h)"
  let ?w1 = "w\<lparr>trace := trace w @ [Db_query ''matric_number'' matric,
                  Pdf_save (pdf_file_path matric ?h)]\<rparr>"
  let ?row = "?s\<lparr>student_id := next_id (students w)\<rparr>"
  from store_certificate_shape [of manager ?h matric] assms(6,7)
  obtain cause where cause: "map_of d ''error'' = Some cause"
    by auto
  from assms(2,3) have ins: "insert_row ?s (students ?w1) =
      Inr (next_id (students w), students w @ [?row])"
    by (simp add: insert_row_def Student_init_def find_None_list_ex)
  have nf: "next_commit_fault ?w1 = None"
    using assms(5) by simp
  have "upload_certificate_page (Some manager) req w =
      (Inr (Redirect ''upload_success_page'' [(''hash_value'', ?h)]),
       w\<lparr>students := students w @ [?row],
         flashes := flashes w @ [(Saved_storing_on_blockchain, ''info''),
                                 (Blockchain_storage_failed cause, ''warning'')],
         trace := trace w @ [Db_query ''matric_number'' matric,
                    Pdf_save (pdf_file_path matric ?h), Db_commit None] @ t,
         commit_faults := tl (commit_faults w)\<rparr>)"
    by (simp add: upload_reaches_try [OF assms(1,2,4)]
        upload_try_anchor_failed [OF nf ins assms(6,7) cause])
  moreover have "certificate_hash ?row = ?h \<and> matric_number ?row = matric
      \<and> blockchain_tx_hash ?row = None \<and> blockchain_block_number ?row = None
      \<and> \<not> on_blockchain ?row"
    by (simp add: Student_init_def)
  ultimately show ?thesis
    using cause by blast
qed

theorem anchor_failure_keeps_record_witness:
  "submitted (post_request ''Jane Doe'' ''CS/2020/001'') ''Jane Doe'' ''CS/2020/001'' ''2024''
     ''2024-07-01'' ''Second Class Upper'' ''Computer Science''
   \<and> store_certificate_on_blockchain (ledger_ok\<lparr>w3_is_connected := Inr False\<rparr>)
         (sample_hash ''Jane Doe'' ''CS/2020/001'') ''CS/2020/001'' =
       (Inr [(''success'', PyBool False),
             (''error'', PyStr ''Not connected to blockchain network'')], [W3_is_connected])
   \<and> fst (upload_certificate_page (Some (ledger_ok\<lparr>w3_is_connected := Inr False\<rparr>))
            (post_request ''Jane Doe'' ''CS/2020/001'') empty_world) =
       Inr (Redirect ''upload_success_page''
              [(''hash_value'', sample_hash ''Jane Doe'' ''CS/2020/001'')])
   \<and> flashes (snd (upload_certificate_page (Some (ledger_ok\<lparr>w3_is_connected := Inr False\<rparr>))
            (post_request ''Jane Doe'' ''CS/2020/001'') empty_world)) =
       [(Saved_storing_on_blockchain, ''info''),
        (Blockchain_storage_failed (PyStr ''Not connected to blockchain network''), ''warning'')]
   \<and> map (\<lambda>r. (blockchain_tx_hash r, blockchain_block_number r, on_blockchain r))
        (students (snd (upload_certificate_page (Some (ledger_ok\<lparr>w3_is_connected := Inr False\<rparr>))
            (post_request ''Jane Doe'' ''CS/2020/001'') empty_world))) =
       [(None, None, False)]"
proof -
  let ?m = "ledger_ok\<lparr>w3_is_connected := Inr False\<rparr>"
  have off: "w3_is_connected ?m = Inr False"
    by simp
  have st: "store_certificate_on_blockchain ?m
      (compute_certificate_hash ''Jane Doe'' ''CS/2020/001'' ''2024'' ''2024-07-01''
         ''Second Class Upper'' ''Computer Science'') ''CS/2020/001'' =
      (Inr [(''success'', PyBool False),
            (''error'', PyStr ''Not connected to blockchain network'')], [W3_is_connected])"
    by (rule store_not_connected [OF off])
  have new: "find (\<lambda>s. matric_number s = ''CS/2020/001'') (students empty_world) = None"
    by (simp add: empty_world_def)
  have fresh: "\<not> list_ex (\<lambda>s. certificate_hash s
        = compute_certificate_hash ''Jane Doe'' ''CS/2020/001'' ''2024'' ''2024-07-01''
            ''Second Class Upper'' ''Computer Science'') (students empty_world)"
    by (simp add: empty_world_def)
  have pdf: "pdf_fault empty_world = None"
    by (simp add: empty_world_def)
  have nf: "next_commit_fault empty_world = None"
    by (simp add: empty_world_def next_commit_fault_def)
  have ok: "map_of [(''success'', PyBool False),
      (''error'', PyStr ''Not connected to blockchain network'')] ''success'' = Some (PyBool False)"
    by simp
  from anchor_failure_keeps_record [OF post_request_submitted new fresh pdf nf st ok]
       post_request_submitted st
  show ?thesis
    by (auto simp: sample_hash_def empty_world_def)
qed

subsection \<open>The second commit fails\<close>

text \<open>
  C1, as the specification states it, does not hold. In the first run below the ledger has
  taken the transaction and the second commit then raises; in the second run the first
  commit raises the same exception. What the caller gets is the same in both: the redirect to
  the upload page and the flash "Database Error: Could not save certificate data." of
  category danger. Nothing distinct marks the first case, although the transaction was sent
  and the stored row says \<open>on_blockchain\<close> false.
\<close>

theorem partial_anchor_not_distinct_counterexample:
  "fst (upload_certificate_page (Some ledger_ok) (post_request ''Jane Doe'' ''CS/2020/001'')
          (empty_world\<lparr>commit_faults := [None, Some disk_full]\<rparr>))
     = Inr (Redirect ''upload_certificate_page'' [])
   \<and> fst (upload_certificate_page (Some ledger_ok) (post_request ''Jane Doe'' ''CS/2020/001'')
          (empty_world\<lparr>commit_faults := [Some disk_full]\<rparr>))
     = Inr (Redirect ''upload_certificate_page'' [])
   \<and> last (flashes (snd (upload_certificate_page (Some ledger_ok)
          (post_request ''Jane Doe'' ''CS/2020/001'')
          (empty_world\<lparr>commit_faults := [None, Some disk_full]\<rparr>))))
     = (Database_error disk_full, ''danger'')
   \<and> last (flashes (snd (upload_certificate_page (Some ledger_ok)
          (post_request ''Jane Doe'' ''CS/2020/001'')
          (empty_world\<lparr>commit_faults := [Some disk_full]\<rparr>))))
     = (Database_error disk_full, ''danger'')
   \<and> Send_raw_transaction ''signed''
       \<in> set (trace (snd (upload_certificate_page (Some ledger_ok)
          (post_request ''Jane Doe'' ''CS/2020/001'')
          (empty_world\<lparr>commit_faults := [None, Some disk_full]\<rparr>))))
   \<and> map on_blockchain (students (snd (upload_certificate_page (Some ledger_ok)
          (post_request ''Jane Doe'' ''CS/2020/001'')
          (empty_world\<lparr>commit_faults := [None, Some disk_full]\<rparr>))))
     = [False]"
proof -
  let ?h = "compute_certificate_hash ''Jane Doe'' ''CS/2020/001'' ''2024'' ''2024-07-01''
              ''Second Class Upper'' ''Computer Science''"
  let ?s = "Student_init ''Jane Doe'' ''CS/2020/001'' ''2024'' ''2024-07-01''
              ''Second Class Upper'' ''Computer Science'' ?h (pdf_file_path ''CS/2020/001'' ?h)"
  let ?w2 = "empty_world\<lparr>commit_faults := [None, Some disk_full]\<rparr>"
  let ?w1 = "empty_world\<lparr>commit_faults := [Some disk_full]\<rparr>"
  let ?t2 = "?w2\<lparr>trace := trace ?w2 @ [Db_query ''matric_number'' ''CS/2020/001'',
                  Pdf_save (pdf_file_path ''CS/2020/001'' ?h)]\<rparr>"
  have new2: "find (\<lambda>s. matric_number s = ''CS/2020/001'') (students ?w2) = None"
    and pdf2: "pdf_fault ?w2 = None"
    and new1: "find (\<lambda>s. matric_number s = ''CS/2020/001'') (students ?w1) = None"
    and pdf1: "pdf_fault ?w1 = None"
    by (simp_all add: empty_world_def)
  have faults: "commit_faults ?t2 = None # Some disk_full # []"
    by simp
  have ins: "insert_row ?s (students ?t2) = Inr (1, [?s\<lparr>student_id := 1\<rparr>])"
    by (simp add: insert_row_def empty_world_def next_id_def)
  have second: "upload_certificate_page (Some ledger_ok) (post_request ''Jane Doe'' ''CS/2020/001'') ?w2
      = io_try (upload_try (Some ledger_ok) ?s ?h ''CS/2020/001'') upload_except ?t2"
    by (rule upload_reaches_try [OF post_request_submitted new2 pdf2])
  have first: "next_commit_fault ?w1 = Some disk_full
      \<or> (next_commit_fault ?w1 = None
         \<and> list_ex (\<lambda>s. certificate_hash s = ?h) (students ?w1)
         \<and> disk_full = Exn ''IntegrityError''
              ''UNIQUE constraint failed: student.certificate_hash'')"
    by (simp add: next_commit_fault_def)
  have m1: "map_of [(''success'', PyBool True), (''tx_hash'', PyStr ''ab12cd34ef56ab78''),
      (''block_number'', PyInt 42), (''gas_used'', PyInt 85000)] ''success'' = Some (PyBool True)"
    and m2: "map_of [(''success'', PyBool True), (''tx_hash'', PyStr ''ab12cd34ef56ab78''),
      (''block_number'', PyInt 42), (''gas_used'', PyInt 85000)] ''tx_hash''
      = Some (PyStr ''ab12cd34ef56ab78'')"
    and m3: "map_of [(''success'', PyBool True), (''tx_hash'', PyStr ''ab12cd34ef56ab78''),
      (''block_number'', PyInt 42), (''gas_used'', PyInt 85000)] ''block_number''
      = Some (PyInt 42)"
    by simp_all
  note second_run = upload_try_second_commit_fails [OF faults ins store_ledger_ok m1 m2 m3]
  have first_run: "upload_certificate_page (Some ledger_ok)
        (post_request ''Jane Doe'' ''CS/2020/001'') ?w1 =
      (Inr (Redirect ''upload_certificate_page'' []),
       ?w1\<lparr>flashes := flashes ?w1 @ [(Database_error disk_full, ''danger'')],
         trace := trace ?w1 @ [Db_query ''matric_number'' ''CS/2020/001'',
                    Pdf_save (pdf_file_path ''CS/2020/001'' ?h),
                    Db_commit (Some disk_full), Db_rollback],
         commit_faults := tl (commit_faults ?w1)\<rparr>)"
    by (rule upload_first_commit_fails [OF post_request_submitted new1 pdf1 first])
  show ?thesis
    unfolding second second_run first_run
    by (simp add: empty_world_def Student_init_def)
qed

text \<open>
  C1, amended to what the handler does. When the record is stored, the ledger call reports
  success and the second commit raises \<open>e\<close>, the handler rolls back, flashes the same
  "Database Error" text that a failed first write gives, with \<open>e\<close>, and redirects to the
  upload page. The row stays in the table without transaction hash or block number and with
  \<open>on_blockchain\<close> false, and the calls to the ledger have been made.
\<close>

theorem second_commit_failure_is_database_error:
  assumes "submitted req name matric year award hon course"
    and "find (\<lambda>s. matric_number s = matric) (students w) = None"
    and "\<not> list_ex (\<lambda>s. certificate_hash s
                           = compute_certificate_hash name matric year award hon course)
             (students w)"
    and "pdf_fault w = None"
    and "commit_faults w = None # Some e # rest"
    and "store_certificate_on_blockchain manager
           (compute_certificate_hash name matric year award hon course) matric = (Inr d, t)"
    and "map_of d ''success'' = Some (PyBool True)"
  shows "\<exists>row.
      certificate_hash row = compute_certificate_hash name matric year award hon course
      \<and> blockchain_tx_hash row = None
      \<and> blockchain_block_number row = None
      \<and> \<not> on_blockchain row
      \<and> upload_certificate_page (Some manager) req w =
          (Inr (Redirect ''upload_certificate_page'' []),
           w\<lparr>students := students w @ [row],
             flashes := flashes w @ [(Saved_storing_on_blockchain, ''info''),
                                     (Database_error e, ''danger'')],
             trace := trace w @ [Db_query ''matric_number'' matric,
                        Pdf_save (pdf_file_path matric
                          (compute_certificate_hash name matric year award hon course)),
                        Db_commit None] @ t @ [Db_commit (Some e), Db_rollback],
             commit_faults := rest\<rparr>)"
proof -
  let ?h = "compute_certificate_hash name matric year award hon course"
  let ?s = "Student_init name matric year award hon course ?h (pdf_file_path matric ?h)"
  let ?w1 = "w\<lparr>trace := trace w @ [Db_query ''matric_number'' matric,
                  Pdf_save (pdf_file_path matric ?h)]\<rparr>"
  let ?row = "?s\<lparr>student_id := next_id (students w)\<rparr>"
  from store_certificate_shape [of manager ?h matric] assms(6,7)
  obtain tx bn where tx: "map_of d ''tx_hash'' = Some (PyStr tx)"
    and bn: "map_of d ''block_number'' = Some bn"
    by auto
  from assms(2,3) have ins: "insert_row ?s (students ?w1) =
      Inr (next_id (students w), students w @ [?row])"
    by (simp add: insert_row_def Student_init_def find_None_list_ex)
  have faults: "commit_faults ?w1 = None # Some e # rest"
    using assms(5) by simp
  have "upload_certificate_page (Some manager) req w =
      (Inr (Redirect ''upload_certificate_page'' []),
       w\<lparr>students := students w @ [?row],
         flashes := flashes w @ [(Saved_storing_on_blockchain, ''info''),
                                 (Database_error e, ''danger'')],
         trace := trace w @ [Db_query ''matric_number'' matric,
                    Pdf_save (pdf_file_path matric ?h), Db_commit None]
                    @ t @ [Db_commit (Some e), Db_rollback],
         commit_faults := rest\<rparr>)"
    by (simp add: upload_reaches_try [OF assms(1,2,4)]
        upload_try_second_commit_fails [OF faults ins assms(6,7) tx bn])
  moreover have "certificate_hash ?row = ?h
      \<and> blockchain_tx_hash ?row = None \<and> blockchain_block_number ?row = None
      \<and> \<not> on_blockchain ?row"
    by (simp add: Student_init_def)
  ultimately show ?thesis
    by blast
qed

theorem second_commit_failure_is_database_error_witness:
  "submitted (post_request ''Jane Doe'' ''CS/2020/001'') ''Jane Doe'' ''CS/2020/001'' ''2024''
     ''2024-07-01'' ''Second Class Upper'' ''Computer Science''
   \<and> commit_faults (empty_world\<lparr>commit_faults := [None, Some disk_full]\<rparr>)
       = None # Some disk_full # []
   \<and> fst (store_certificate_on_blockchain ledger_ok (sample_hash ''Jane Doe'' ''CS/2020/001'')
            ''CS/2020/001'')
       = Inr [(''success'', PyBool True), (''tx_hash'', PyStr ''ab12cd34ef56ab78''),
              (''block_number'', PyInt 42), (''gas_used'', PyInt 85000)]
   \<and> fst (upload_certificate_page (Some ledger_ok) (post_request ''Jane Doe'' ''CS/2020/001'')
            (empty_world\<lparr>commit_faults := [None, Some disk_full]\<rparr>))
       = Inr (Redirect ''upload_certificate_page'' [])
   \<and> flashes (snd (upload_certificate_page (Some ledger_ok)
            (post_request ''Jane Doe'' ''CS/2020/001'')
            (empty_world\<lparr>commit_faults := [None, Some disk_full]\<rparr>)))
       = [(Saved_storing_on_blockchain, ''info''), (Database_error disk_full, ''danger'')]"
proof -
  let ?w = "empty_world\<lparr>commit_faults := [None, Some disk_full]\<rparr>"
  have new: "find (\<lambda>s. matric_number s = ''CS/2020/001'') (students ?w) = None"
    by (simp add: empty_world_def)
  have fresh: "\<not> list_ex (\<lambda>s. certificate_hash s
        = compute_certificate_hash ''Jane Doe'' ''CS/2020/001'' ''2024'' ''2024-07-01''
            ''Second Class Upper'' ''Computer Science'') (students ?w)"
    by (simp add: empty_world_def)
  have pdf: "pdf_fault ?w = None"
    by (simp add: empty_world_def)
  have faults: "commit_faults ?w = None # Some disk_full # []"
    by simp
  have ok: "map_of [(''success'', PyBool True), (''tx_hash'', PyStr ''ab12cd34ef56ab78''),
      (''block_number'', PyInt 42), (''gas_used'', PyInt 85000)] ''success'' = Some (PyBool True)"
    by simp
  from second_commit_failure_is_database_error
         [OF post_request_submitted new fresh pdf faults store_ledger_ok ok]
       post_request_submitted faults
  show ?thesis
    by (auto simp: sample_hash_def empty_world_def store_ledger_ok)
qed

subsection \<open>The fingerprint is already in the table\<close>

text \<open>
  C3, as the specification states it, does not hold. The table holds the certificate of
  "A|B" with matric number "C"; the request is for "A" with matric number "B|C", which has
  the same data string and so the same hash. The only query is by matric number and finds
  nothing; the insert is then rejected by the uniqueness constraint, and what is flashed is
  the general "Database Error" text, not a duplicate error.
\<close>

theorem duplicate_fingerprint_counterexample:
  "sample_hash ''A'' ''B|C'' \<in> set (map certificate_hash (students one_row_world))
   \<and> fst (upload_certificate_page None (post_request ''A'' ''B|C'') one_row_world)
       = Inr (Redirect ''upload_certificate_page'' [])
   \<and> flashes (snd (upload_certificate_page None (post_request ''A'' ''B|C'') one_row_world))
       = [(Database_error (Exn ''IntegrityError''
             ''UNIQUE constraint failed: student.certificate_hash''), ''danger'')]
   \<and> trace (snd (upload_certificate_page None (post_request ''A'' ''B|C'') one_row_world))
       = [Db_query ''matric_number'' ''B|C'',
          Pdf_save (pdf_file_path ''B|C'' (sample_hash ''A'' ''B|C'')),
          Db_commit (Some (Exn ''IntegrityError''
             ''UNIQUE constraint failed: student.certificate_hash'')),
          Db_rollback]"
proof -
  let ?e = "Exn ''IntegrityError'' ''UNIQUE constraint failed: student.certificate_hash''"
  have held: "sample_hash ''A'' ''B|C'' \<in> set (map certificate_hash (students one_row_world))"
    by (simp add: one_row_world_def empty_world_def Student_init_def sample_hash_pipe)
  have new: "find (\<lambda>s. matric_number s = ''B|C'') (students one_row_world) = None"
    by (simp add: one_row_world_def empty_world_def Student_init_def)
  have pdf: "pdf_fault one_row_world = None"
    by (simp add: one_row_world_def empty_world_def)
  have dup: "list_ex (\<lambda>s. certificate_hash s
        = compute_certificate_hash ''A'' ''B|C'' ''2024'' ''2024-07-01'' ''Second Class Upper''
            ''Computer Science'') (students one_row_world)"
    using held by (auto simp: list_ex_iff sample_hash_def)
  have rejected: "next_commit_fault one_row_world = Some ?e
      \<or> (next_commit_fault one_row_world = None
         \<and> list_ex (\<lambda>s. certificate_hash s
              = compute_certificate_hash ''A'' ''B|C'' ''2024'' ''2024-07-01''
                  ''Second Class Upper'' ''Computer Science'') (students one_row_world)
         \<and> ?e = Exn ''IntegrityError'' ''UNIQUE constraint failed: student.certificate_hash'')"
    using dup by (simp add: next_commit_fault_def one_row_world_def empty_world_def)
  show ?thesis
    unfolding upload_first_commit_fails [OF post_request_submitted_pipe new pdf rejected]
    using held
    by (simp add: one_row_world_def empty_world_def sample_hash_def)
qed

text \<open>
  C3, amended to what the handler does. For a request whose hash is already in the table
  the table is left as it is and no ledger call is made; the query that is made is by matric
  number, not by hash.
  \<^item> If the matric number is in the table, the handler flashes "Certificate for Matric No.
    ... already exists" and redirects to the upload page; nothing is written.
  \<^item> If it is not and the certificate file is saved, the insert fails (the database raises,
    or the uniqueness constraint on the hash rejects it), and the handler rolls back, flashes
    "Database Error" and redirects to the upload page.
  \<^item> If saving the certificate file raises, the exception leaves the handler.
\<close>

theorem duplicate_fingerprint_rejected:
  assumes "submitted req name matric year award hon course"
    and "list_ex (\<lambda>s. certificate_hash s
                        = compute_certificate_hash name matric year award hon course)
           (students w)"
  shows "(\<forall>found. find (\<lambda>s. matric_number s = matric) (students w) = Some found \<longrightarrow>
            upload_certificate_page blockchain req w =
              (Inr (Redirect ''upload_certificate_page'' []),
               w\<lparr>flashes := flashes w @ [(Matric_already_exists matric, ''danger'')],
                 trace := trace w @ [Db_query ''matric_number'' matric]\<rparr>))
       \<and> (find (\<lambda>s. matric_number s = matric) (students w) = None \<and> pdf_fault w = None \<longrightarrow>
            (\<exists>e. upload_certificate_page blockchain req w =
              (Inr (Redirect ''upload_certificate_page'' []),
               w\<lparr>flashes := flashes w @ [(Database_error e, ''danger'')],
                 trace := trace w @ [Db_query ''matric_number'' matric,
                            Pdf_save (pdf_file_path matric
                              (compute_certificate_hash name matric year award hon course)),
                            Db_commit (Some e), Db_rollback],
                 commit_faults := tl (commit_faults w)\<rparr>)))
       \<and> (\<forall>e. find (\<lambda>s. matric_number s = matric) (students w) = None
               \<and> pdf_fault w = Some e \<longrightarrow>
            upload_certificate_page blockchain req w =
              (Inl e, w\<lparr>trace := trace w @ [Db_query ''matric_number'' matric]\<rparr>))
       \<and> students (snd (upload_certificate_page blockchain req w)) = students w
       \<and> \<not> list_ex ledger_event (new_events w (snd (upload_certificate_page blockchain req w)))"
proof -
  let ?R = "upload_certificate_page blockchain req w"
  let ?h = "compute_certificate_hash name matric year award hon course"
  have exists: "\<And>found. find (\<lambda>s. matric_number s = matric) (students w) = Some found \<Longrightarrow>
      ?R = (Inr (Redirect ''upload_certificate_page'' []),
            w\<lparr>flashes := flashes w @ [(Matric_already_exists matric, ''danger'')],
              trace := trace w @ [Db_query ''matric_number'' matric]\<rparr>)"
    using assms(1)
    by (simp add: upload_submitted [OF assms(1)] upload_certificate_post_def submitted_def
        query_filter_by_first_def io_defs)
  have nopdf: "\<And>e. find (\<lambda>s. matric_number s = matric) (students w) = None \<Longrightarrow>
      pdf_fault w = Some e \<Longrightarrow>
      ?R = (Inl e, w\<lparr>trace := trace w @ [Db_query ''matric_number'' matric]\<rparr>)"
    using assms(1)
    by (simp add: upload_submitted [OF assms(1)] upload_certificate_post_def submitted_def
        query_filter_by_first_def generate_certificate_pdf_def Let_def io_defs)
  have rejected: "find (\<lambda>s. matric_number s = matric) (students w) = None \<Longrightarrow>
      pdf_fault w = None \<Longrightarrow>
      \<exists>e. ?R = (Inr (Redirect ''upload_certificate_page'' []),
            w\<lparr>flashes := flashes w @ [(Database_error e, ''danger'')],
              trace := trace w @ [Db_query ''matric_number'' matric,
                         Pdf_save (pdf_file_path matric ?h), Db_commit (Some e), Db_rollback],
              commit_faults := tl (commit_faults w)\<rparr>)"
  proof -
    assume new: "find (\<lambda>s. matric_number s = matric) (students w) = None"
      and pdf: "pdf_fault w = None"
    show ?thesis
    proof (cases "next_commit_fault w")
      case None
      with assms(2) upload_first_commit_fails [OF assms(1) new pdf,
          of "Exn ''IntegrityError'' ''UNIQUE constraint failed: student.certificate_hash''"
             blockchain]
      show ?thesis by blast
    next
      case (Some e)
      with upload_first_commit_fails [OF assms(1) new pdf, of e blockchain]
      show ?thesis by blast
    qed
  qed
  have same: "students (snd ?R) = students w
      \<and> \<not> list_ex ledger_event (new_events w (snd ?R))"
  proof (cases "find (\<lambda>s. matric_number s = matric) (students w)")
    case (Some found)
    show ?thesis
      by (simp add: exists [OF Some] new_events_def)
  next
    case None
    show ?thesis
    proof (cases "pdf_fault w")
      case no_fault: None
      from rejected [OF None no_fault] obtain e where
        "?R = (Inr (Redirect ''upload_certificate_page'' []),
            w\<lparr>flashes := flashes w @ [(Database_error e, ''danger'')],
              trace := trace w @ [Db_query ''matric_number'' matric,
                         Pdf_save (pdf_file_path matric ?h), Db_commit (Some e), Db_rollback],
              commit_faults := tl (commit_faults w)\<rparr>)"
        by blast
      then show ?thesis
        by (simp add: new_events_def)
    next
      case (Some e)
      show ?thesis
        by (simp add: nopdf [OF None Some] new_events_def)
    qed
  qed
  from exists nopdf rejected same show ?thesis
    by blast
qed

theorem duplicate_fingerprint_rejected_witness:
  "submitted (post_request ''A'' ''B|C'') ''A'' ''B|C'' ''2024'' ''2024-07-01''
     ''Second Class Upper'' ''Computer Science''
   \<and> list_ex (\<lambda>s. certificate_hash s = sample_hash ''A'' ''B|C'') (students one_row_world)
   \<and> find (\<lambda>s. matric_number s = ''B|C'') (students one_row_world) = None
   \<and> pdf_fault one_row_world = None
   \<and> students (snd (upload_certificate_page None (post_request ''A'' ''B|C'') one_row_world))
       = students one_row_world
   \<and> \<not> list_ex ledger_event (new_events one_row_world
         (snd (upload_certificate_page None (post_request ''A'' ''B|C'') one_row_world)))"
proof -
  have dup: "list_ex (\<lambda>s. certificate_hash s
        = compute_certificate_hash ''A'' ''B|C'' ''2024'' ''2024-07-01'' ''Second Class Upper''
            ''Computer Science'') (students one_row_world)"
    using sample_hash_pipe
    by (simp add: one_row_world_def empty_world_def Student_init_def sample_hash_def)
  have new: "find (\<lambda>s. matric_number s = ''B|C'') (students one_row_world) = None"
    by (simp add: one_row_world_def empty_world_def Student_init_def)
  have pdf: "pdf_fault one_row_world = None"
    by (simp add: one_row_world_def empty_world_def)
  from duplicate_fingerprint_rejected [OF post_request_submitted_pipe dup, of None]
       post_request_submitted_pipe dup new pdf
  show ?thesis
    by (simp add: sample_hash_def)
qed

section \<open>Verification\<close>

text \<open>
  C4, as the specification states it, does not hold. With no ledger configured, the
  candidate "abc" (wrong length) gets exactly the response that a well-formed candidate
  absent from the table gets. And a candidate of 64 letters "z", which is not hexadecimal,
  is looked up in the table and on the ledger.
\<close>

theorem malformed_candidate_counterexample:
  "fst (verify_certificate None (get_request ''abc'') empty_world)
     = fst (verify_certificate None (get_request ''aaaaaaaaaaaaaaaaaaaaaaaaaaaaaaaaaaaaaaaaaaaaaaaaaaaaaaaaaaaaaaaa'') empty_world)
   \<and> trace (snd (verify_certificate (Some ledger_ok) (get_request ''zzzzzzzzzzzzzzzzzzzzzzzzzzzzzzzzzzzzzzzzzzzzzzzzzzzzzzzzzzzzzzzz'') empty_world))
     = [Db_query ''certificate_hash'' ''zzzzzzzzzzzzzzzzzzzzzzzzzzzzzzzzzzzzzzzzzzzzzzzzzzzzzzzzzzzzzzzz'',
        Call_verifyCertificate ''zzzzzzzzzzzzzzzzzzzzzzzzzzzzzzzzzzzzzzzzzzzzzzzzzzzzzzzzzzzzzzzz'']"
  by (simp add: verify_certificate_def get_request_def get_strip_def strip_def isspace_def
      query_filter_by_first_def verify_certificate_on_blockchain_def empty_world_def
      ledger_ok_def io_defs l_defs)

lemma verify_wrong_length:
  assumes "(http_method req = ''GET'' \<and> args req ''hash'' = Some v)
           \<or> (http_method req = ''POST'' \<and> form req ''certificate_hash'' = Some v)"
    and "strip v \<noteq> []" and "length (strip v) \<noteq> 64"
  shows "verify_certificate blockchain req w =
    (Inr (Render ''verification_results.html''
            [(''student'', Arg_student None), (''blockchain_result'', Arg_dict None)]), w)"
  using assms by (auto simp: verify_certificate_def get_strip_def io_defs)

lemma verify_not_in_table_no_ledger:
  assumes "(http_method req = ''GET'' \<and> args req ''hash'' = Some v)
           \<or> (http_method req = ''POST'' \<and> form req ''certificate_hash'' = Some v)"
    and "length (strip v) = 64"
    and "find (\<lambda>s. certificate_hash s = strip v) (students w) = None"
  shows "fst (verify_certificate None req w) =
    Inr (Render ''verification_results.html''
           [(''student'', Arg_student None), (''blockchain_result'', Arg_dict None)])"
  using assms
  by (auto simp: verify_certificate_def get_strip_def query_filter_by_first_def io_defs)

text \<open>
  C4, amended to what the handler does. A candidate that is not empty once stripped and
  whose length is not 64 gets the results page with no student and no ledger result, and the
  world is unchanged: no query, no ledger call. This is the response a candidate of length
  64 that is not in the table gets when no ledger is configured. Only the length is checked,
  not the characters.
\<close>

theorem wrong_length_candidate_not_looked_up:
  assumes "(http_method req = ''GET'' \<and> args req ''hash'' = Some v)
           \<or> (http_method req = ''POST'' \<and> form req ''certificate_hash'' = Some v)"
    and "strip v \<noteq> []" and "length (strip v) \<noteq> 64"
  shows "verify_certificate blockchain req w =
           (Inr (Render ''verification_results.html''
                   [(''student'', Arg_student None), (''blockchain_result'', Arg_dict None)]), w)
       \<and> (\<forall>req' v'.
             ((http_method req' = ''GET'' \<and> args req' ''hash'' = Some v')
               \<or> (http_method req' = ''POST'' \<and> form req' ''certificate_hash'' = Some v'))
             \<and> length (strip v') = 64
             \<and> find (\<lambda>s. certificate_hash s = strip v') (students w) = None \<longrightarrow>
             fst (verify_certificate None req' w) = fst (verify_certificate blockchain req w))"
proof -
  note here = verify_wrong_length [OF assms, of blockchain w]
  have "fst (verify_certificate None req' w) = fst (verify_certificate blockchain req w)"
    if "((http_method req' = ''GET'' \<and> args req' ''hash'' = Some v')
          \<or> (http_method req' = ''POST'' \<and> form req' ''certificate_hash'' = Some v'))
        \<and> length (strip v') = 64
        \<and> find (\<lambda>s. certificate_hash s = strip v') (students w) = None"
    for req' v'
    using that verify_not_in_table_no_ledger [of req' v' w] here by simp
  with here show ?thesis
    by blast
qed

theorem wrong_length_candidate_not_looked_up_witness:
  "http_method (get_request ''abc'') = ''GET'' \<and> args (get_request ''abc'') ''hash'' = Some ''abc''
   \<and> strip ''abc'' \<noteq> [] \<and> length (strip ''abc'') \<noteq> 64
   \<and> verify_certificate (Some ledger_ok) (get_request ''abc'') empty_world =
       (Inr (Render ''verification_results.html''
               [(''student'', Arg_student None), (''blockchain_result'', Arg_dict None)]),
        empty_world)
   \<and> fst (verify_certificate None (get_request ''aaaaaaaaaaaaaaaaaaaaaaaaaaaaaaaaaaaaaaaaaaaaaaaaaaaaaaaaaaaaaaaa'') empty_world)
       = fst (verify_certificate (Some ledger_ok) (get_request ''abc'') empty_world)"
proof -
  let ?a = "''aaaaaaaaaaaaaaaaaaaaaaaaaaaaaaaaaaaaaaaaaaaaaaaaaaaaaaaaaaaaaaaa''"
  have read: "(http_method (get_request ''abc'') = ''GET''
        \<and> args (get_request ''abc'') ''hash'' = Some ''abc'')
      \<or> (http_method (get_request ''abc'') = ''POST''
        \<and> form (get_request ''abc'') ''certificate_hash'' = Some ''abc'')"
    by (simp add: get_request_def)
  have stripped: "strip ''abc'' = ''abc''" "strip ?a = ?a"
    by (simp_all add: strip_def isspace_def)
  have nonempty: "strip ''abc'' \<noteq> []" and short: "length (strip ''abc'') \<noteq> 64"
    by (simp_all add: stripped)
  have other: "((http_method (get_request ?a) = ''GET'' \<and> args (get_request ?a) ''hash'' = Some ?a)
        \<or> (http_method (get_request ?a) = ''POST''
           \<and> form (get_request ?a) ''certificate_hash'' = Some ?a))
      \<and> length (strip ?a) = 64
      \<and> find (\<lambda>s. certificate_hash s = strip ?a) (students empty_world) = None"
    by (simp add: get_request_def stripped empty_world_def)
  from wrong_length_candidate_not_looked_up
         [OF read nonempty short, of "Some ledger_ok" empty_world]
  have here: "verify_certificate (Some ledger_ok) (get_request ''abc'') empty_world =
      (Inr (Render ''verification_results.html''
              [(''student'', Arg_student None), (''blockchain_result'', Arg_dict None)]),
       empty_world)"
    and there: "fst (verify_certificate None (get_request ?a) empty_world)
      = fst (verify_certificate (Some ledger_ok) (get_request ''abc'') empty_world)"
    using other by blast+
  from here there nonempty short show ?thesis
    by (simp add: get_request_def)
qed

end
